theory Spec2Isabelle
  imports Complex_Main
begin

section \<open>Errors raised by the Python code\<close>

text \<open>
  Every exception the loader can raise is a value. A function that can raise returns
  \<open>py_error + 'a\<close>, with \<open>Inl\<close> for the exception.
\<close>

datatype py_error = TypeError | KeyError | IndexError | ValueError | FileNotFoundError

definition getitem :: "('k \<rightharpoonup> 'v) \<Rightarrow> 'k \<Rightarrow> py_error + 'v" where
  \<comment> \<open>\<open>d[k]\<close> on a dict: a missing key raises KeyError.\<close>
  "getitem d k = (case d k of None \<Rightarrow> Inl KeyError | Some v \<Rightarrow> Inr v)"

section \<open>The channel enumerations of \<open>ShotData.__init__\<close>\<close>

definition FluxLoops :: "string list" where
  "FluxLoops =
    [''CFL01'', ''CFL02'', ''CFL03'', ''CFL04'', ''CFL05'',
     ''CFL06'', ''CFL07'', ''CFL08'', ''CFL09'', ''CFL10'',
     ''CFL11'', ''CFL12'', ''CFL13'', ''CFL04'', ''CFL05'',
     ''CTor1'', ''CTor2'', ''CTor3'', ''CTor4'', ''CTor5'',
     ''CTor6'', ''DiamagA'', ''DiamagB'', ''DiamagC'',
     ''NCFL01'', ''NCFL02'', ''NCFL03'', ''NCFL04'',
     ''NCFL05'', ''NCFL06'', ''NCFL07'', ''NCFL08'',
     ''NCFL09'', ''NCFL10'', ''NCFL11'', ''NCFL12'',
     ''NCFL13'', ''NCFL14'', ''NCFL15'', ''NCFL16'',
     ''NCFL17'', ''NCFL18'', ''NCFL19'', ''NCFL20'',
     ''WFL01'', ''WFL02'', ''WFL03'', ''WFL04'', ''WFL05'', ''WFL06'',
     ''WFL07'', ''WFL08'', ''WFL09'', ''WFL10'', ''WFL11'', ''WFL12'',
     ''WFL13'', ''WFL14'', ''WFL15'', ''WFL16'']"

definition BDots :: "string list" where
  "BDots =
    [''PDX01'', ''PDX02'', ''PDX03'', ''PDX04'', ''PDX05'', ''PDX06'',
     ''PDX07'', ''PDX08'', ''PDX09'', ''PDX10'', ''PDX11'', ''PDX12'',
     ''PDX13'', ''OTor1'', ''OTor2'', ''OTor3'', ''OTor4'', ''OTor5'',
     ''OTor6'', ''CTor1'', ''CTor2'', ''CTor3'', ''CTor4'', ''CTor5'',
     ''CTor6'', ''CPA01'', ''CPA02'', ''CPA03'', ''CPA04'', ''CPA05'',
     ''CPA06'', ''CPA07'', ''CPA08'', ''CPA09'', ''CPA10'', ''CPA11'',
     ''CPA12'', ''CPA13'', ''CPA14'', ''CPA15'', ''CPA16'', ''CPA17'',
     ''CPA18'', ''CPA19'', ''CPA20'', ''CPA21'']"

definition Currents :: "string list" where
  "Currents =
    [''PlasmaRogA'', ''PlasmaRogB'', ''RT_DPWMi_EF123'',
     ''RT_DPWMi_EF45'', ''RT_DPWMi_EF678'', ''RT_DPWMi_TF'']"

section \<open>The geometric-factor table \<open>BdotNA\<close>\<close>

definition BdotDict :: "(string \<times> real) list" where
  \<comment> \<open>The dict literal of \<open>BdotNA\<close>, in the order it is written.\<close>
  "BdotDict =
    [(''PDX01'', 31.40986856), (''PDX02'', 30.61780031),
     (''PDX03'', 30.83447292), (''PDX04'', 30.18429813),
     (''PDX05'', 29.80654102), (''PDX06'', 31.5045286),
     (''PDX07'', 29.94459065), (''PDX08'', 30.03320686),
     (''PDX09'', 30.94971522), (''PDX10'', 31.56406303),
     (''PDX11'', 30.99254654), (''PDX12'', 29.48266806),
     (''PDX13'', 31.41396525), (''OTor1'', 51.43020212),
     (''OTor2'', 53.77402821), (''OTor3'', 53.68001112),
     (''OTor4'', 50.42248514), (''OTor5'', 52.05609586),
     (''OTor6'', 51.94900848), (''CTor1'', 176.3906218),
     (''CTor2'', 202.8254814), (''CTor3'', 183.3700253),
     (''CTor4'', 185.2652264), (''CTor5'', 187.4727088),
     (''CTor6'', 214.1072423),
     (''CPA01'', 179.71749), (''CPA02'', 198.80251),
     (''CPA03'', 197.43882), (''CPA04'', 185.42609),
     (''CPA05'', 186.73373), (''CPA06'', 190.3981965),
     (''CPA07'', 192.9140393), (''CPA08'', 198.2726724),
     (''CPA09'', 182.9567595), (''CPA10'', 193.7743813),
     (''CPA11'', 196.2893948), (''CPA12'', 185.3693143),
     (''CPA13'', 191.0163613), (''CPA14'', 192.7280717),
     (''CPA15'', 172.6144269), (''CPA16'', 171.9967657),
     (''CPA17'', 182.0353776), (''CPA18'', 209.1828164),
     (''CPA19'', 182.0272987), (''CPA20'', 184.948528),
     (''CPA21'', 174.5560926)]"

definition BdotNA :: "string \<rightharpoonup> real" where
  "BdotNA = map_of BdotDict"

section \<open>Floating-point values\<close>

text \<open>
  The elements of the numpy arrays are IEEE doubles. The model keeps the special values
  (the infinities and NaN, with the IEEE rules for them) and computes the finite ones in
  exact arithmetic: a finite double is a real number, a finite result is never rounded
  and never overflows to an infinity, \<open>+0.0\<close> and \<open>-0.0\<close> are one number and a zero
  divisor is read as \<open>+0.0\<close>. A statement about finite values is therefore a statement
  over exact arithmetic; what is said about infinities and NaN is what the doubles do.
  numpy raises no exception on these operations (it only warns), so they are total.
\<close>

datatype npfloat = Fin real | PInf | NInf | NaN

fun fneg :: "npfloat \<Rightarrow> npfloat" where
  "fneg (Fin a) = Fin (- a)"
| "fneg PInf = NInf"
| "fneg NInf = PInf"
| "fneg NaN = NaN"

fun fadd :: "npfloat \<Rightarrow> npfloat \<Rightarrow> npfloat" where
  "fadd (Fin a) (Fin b) = Fin (a + b)"
| "fadd NaN _ = NaN"
| "fadd _ NaN = NaN"
| "fadd PInf NInf = NaN"
| "fadd NInf PInf = NaN"
| "fadd PInf _ = PInf"
| "fadd _ PInf = PInf"
| "fadd NInf _ = NInf"
| "fadd _ NInf = NInf"

definition fsub :: "npfloat \<Rightarrow> npfloat \<Rightarrow> npfloat" where
  "fsub a b = fadd a (fneg b)"

fun fmul :: "npfloat \<Rightarrow> npfloat \<Rightarrow> npfloat" where
  "fmul (Fin a) (Fin b) = Fin (a * b)"
| "fmul NaN _ = NaN"
| "fmul _ NaN = NaN"
| "fmul PInf (Fin b) = (if b = 0 then NaN else if 0 < b then PInf else NInf)"
| "fmul NInf (Fin b) = (if b = 0 then NaN else if 0 < b then NInf else PInf)"
| "fmul (Fin a) PInf = (if a = 0 then NaN else if 0 < a then PInf else NInf)"
| "fmul (Fin a) NInf = (if a = 0 then NaN else if 0 < a then NInf else PInf)"
| "fmul PInf PInf = PInf"
| "fmul PInf NInf = NInf"
| "fmul NInf PInf = NInf"
| "fmul NInf NInf = PInf"

fun fdiv :: "npfloat \<Rightarrow> npfloat \<Rightarrow> npfloat" where
  "fdiv (Fin a) (Fin b) =
     (if b \<noteq> 0 then Fin (a / b)
      else if a = 0 then NaN else if 0 < a then PInf else NInf)"
| "fdiv NaN _ = NaN"
| "fdiv _ NaN = NaN"
| "fdiv (Fin a) PInf = Fin 0"
| "fdiv (Fin a) NInf = Fin 0"
| "fdiv PInf (Fin b) = (if 0 \<le> b then PInf else NInf)"
| "fdiv NInf (Fin b) = (if 0 \<le> b then NInf else PInf)"
| "fdiv PInf _ = NaN"
| "fdiv NInf _ = NaN"

fun feq :: "npfloat \<Rightarrow> npfloat \<Rightarrow> bool" where
  \<comment> \<open>\<open>==\<close> on doubles: NaN equals nothing, itself included.\<close>
  "feq NaN _ = False"
| "feq _ NaN = False"
| "feq a b = (a = b)"

section \<open>Raw signals and \<open>IgorLoad\<close>'s sentinel\<close>

text \<open>
  \<open>IgorLoad\<close> returns \<open>{'deltaX': deltaX, 'data': wData}\<close> with a number and a numpy
  array when the file loads (\<open>Wave\<close>), and \<open>{'deltaX': [], 'data': []}\<close>, two empty
  Python lists, when the file is not found (\<open>NotLoaded\<close>). The samples of a wave are
  doubles: a wave can hold infinities and NaN.
\<close>

datatype raw_signal = NotLoaded | Wave real "npfloat list"

section \<open>\<open>CleanUp\<close>\<close>

definition sigTime_of :: "real \<Rightarrow> nat \<Rightarrow> real list" where
  \<comment> \<open>\<open>dx * np.arange(npts)\<close>, each product exact\<close>
  "sigTime_of dx npts = map (\<lambda>i. dx * real i) [0..<npts]"

definition dStart :: real where
  "dStart = 0.0"

definition dEnd :: real where
  \<comment> \<open>The double \<open>0.001\<close> is the double next above the real 1/1000, so a double lies
      below the one exactly when it lies below the other.\<close>
  "dEnd = 0.001"

definition dRange_of :: "real list \<Rightarrow> nat list" where
  \<comment> \<open>\<open>np.flatnonzero((sigTime > dStart) & (sigTime < dEnd))\<close>\<close>
  "dRange_of sigTime =
     filter (\<lambda>i. dStart < sigTime ! i \<and> sigTime ! i < dEnd) [0..<length sigTime]"

definition np_mean :: "npfloat list \<Rightarrow> npfloat" where
  \<comment> \<open>\<open>np.mean\<close>: the sum, in exact arithmetic, over the length; the mean of an empty
      array is nan (with a warning).\<close>
  "np_mean xs =
     (if xs = [] then NaN else fdiv (foldl fadd (Fin 0) xs) (Fin (real (length xs))))"

definition diff :: "real list \<Rightarrow> real list" where
  \<comment> \<open>\<open>np.diff\<close>\<close>
  "diff x = map (\<lambda>j. x ! (j + 1) - x ! j) [0..<length x - 1]"

fun cumsum_from :: "npfloat \<Rightarrow> npfloat list \<Rightarrow> npfloat list" where
  "cumsum_from acc [] = []"
| "cumsum_from acc (v # vs) = fadd acc v # cumsum_from (fadd acc v) vs"

fun cumsum :: "npfloat list \<Rightarrow> npfloat list" where
  \<comment> \<open>\<open>np.cumsum\<close>\<close>
  "cumsum [] = []"
| "cumsum (v # vs) = v # cumsum_from v vs"

definition cumtrapz :: "npfloat list \<Rightarrow> real list \<Rightarrow> py_error + npfloat list" where
  \<comment> \<open>\<open>scipy.integrate.cumtrapz(y, x=x, initial=0)\<close> on one-dimensional arrays:
      \<open>d = np.diff(x)\<close>, a ValueError unless \<open>len(d) == len(y) - 1\<close>, then
      \<open>0\<close> in front of \<open>np.cumsum(d * (y[1:] + y[:-1]) / 2.0)\<close>.\<close>
  "cumtrapz y x =
     (let d = diff x in
      if int (length d) \<noteq> int (length y) - 1 then Inl ValueError
      else Inr (Fin 0 #
        cumsum (map (\<lambda>j. fdiv (fmul (Fin (d ! j)) (fadd (y ! (j + 1)) (y ! j))) (Fin 2.0))
                  [0..<length d])))"

definition drift_step :: "real list \<Rightarrow> npfloat list \<Rightarrow> nat \<Rightarrow> npfloat list" where
  \<comment> \<open>One pass of the loop body
      \<open>cleanSig[i] -= (offSig[-1] - offSig[0]) * sigTime[i] / (sigTime[-1] - sigTime[0])\<close>.
      \<open>cleanSig\<close> and \<open>offSig\<close> name the same array, so the end points are read from
      the array as it is now.\<close>
  "drift_step sigTime cleanSig i =
     cleanSig[i := fsub (cleanSig ! i)
       (fdiv (fmul (fsub (last cleanSig) (cleanSig ! 0)) (Fin (sigTime ! i)))
             (Fin (last sigTime - sigTime ! 0)))]"

definition drift_loop :: "real list \<Rightarrow> npfloat list \<Rightarrow> npfloat list" where
  \<comment> \<open>\<open>for i in range(0, len(offSig))\<close>\<close>
  "drift_loop sigTime offSig = foldl (drift_step sigTime) offSig [0..<length offSig]"

definition pre_drift :: "real \<Rightarrow> npfloat list \<Rightarrow> bool \<Rightarrow> py_error + npfloat list" where
  \<comment> \<open>\<open>offSig\<close> as it reaches the loop: the baseline removed, then integrated if asked.\<close>
  "pre_drift dx sig intFlag =
     (let npts = length sig;
          sigTime = sigTime_of dx npts;
          dRange = dRange_of sigTime;
          mean = np_mean (map (\<lambda>i. sig ! i) dRange);
          offSig = map (\<lambda>s. fsub s mean) sig
      in if intFlag then cumtrapz offSig sigTime else Inr offSig)"

fun CleanUp :: "raw_signal \<Rightarrow> bool \<Rightarrow> py_error + (npfloat list \<times> real list)" where
  \<comment> \<open>On the sentinel \<open>sig\<close> and \<open>dx\<close> are empty Python lists: \<open>npts\<close> is 0,
      \<open>dx * np.arange(0)\<close> is an empty array and so is \<open>dRange\<close>; then \<open>sig[dRange]\<close>
      indexes a list with an array, which raises TypeError.\<close>
  "CleanUp NotLoaded intFlag = Inl TypeError"
| "CleanUp (Wave dx sig) intFlag =
     (case pre_drift dx sig intFlag of
        Inl e \<Rightarrow> Inl e
      | Inr offSig \<Rightarrow>
          (let sigTime = sigTime_of dx (length sig)
           in Inr (drift_loop sigTime offSig, sigTime)))"

section \<open>The drift removal as the specification words it\<close>

text \<open>
  The specification subtracts the straight line through the first and the last sample,
  with both end points read once, before any sample is changed:
  \<open>cleaned[i] = offset[i] - (offset_last - offset_first) * time[i] / (time[-1] - time[0])\<close>.
\<close>

definition drift_spec :: "real list \<Rightarrow> npfloat list \<Rightarrow> npfloat list" where
  "drift_spec time offset =
     (let offset_first = offset ! 0; offset_last = last offset
      in map (\<lambda>i. fsub (offset ! i)
                 (fdiv (fmul (fsub offset_last offset_first) (Fin (time ! i)))
                       (Fin (last time - time ! 0))))
             [0..<length offset])"

text \<open>Two predicates on array elements, used to state what reaches the loop.\<close>

fun finite_or_nan :: "npfloat \<Rightarrow> bool" where
  "finite_or_nan PInf = False"
| "finite_or_nan NInf = False"
| "finite_or_nan _ = True"

fun is_Fin :: "npfloat \<Rightarrow> bool" where
  "is_Fin (Fin _) = True"
| "is_Fin _ = False"

section \<open>Python strings\<close>

text \<open>
  A string is a list of characters; the characters are HOL's 8-bit ones, so code points
  above 255 are not represented.
\<close>

definition digit_chars :: string where
  "digit_chars = ''0123456789''"

fun str_nat :: "nat \<Rightarrow> string" where
  "str_nat n = (if n < 10 then [digit_chars ! n] else str_nat (n div 10) @ [digit_chars ! (n mod 10)])"

definition str_int :: "int \<Rightarrow> string" where
  \<comment> \<open>\<open>str(n)\<close> for an int\<close>
  "str_int n = (if n < 0 then ''-'' @ str_nat (nat (- n)) else str_nat (nat n))"

definition py_isspace :: "char \<Rightarrow> bool" where
  \<comment> \<open>the characters \<open>str.split()\<close> and \<open>float\<close> treat as whitespace\<close>
  "py_isspace ch =
     (ch \<in> set [CHR 0x09, CHR 0x0A, CHR 0x0B, CHR 0x0C, CHR 0x0D, CHR 0x1C, CHR 0x1D,
                CHR 0x1E, CHR 0x1F, CHR 0x20, CHR 0x85, CHR 0xA0])"

fun split_from :: "string \<Rightarrow> string \<Rightarrow> string list" where
  \<comment> \<open>the first argument is the token read so far\<close>
  "split_from cur [] = (if cur = [] then [] else [cur])"
| "split_from cur (ch # rest) =
     (if py_isspace ch
      then (if cur = [] then split_from [] rest else cur # split_from [] rest)
      else split_from (cur @ [ch]) rest)"

definition py_split :: "string \<Rightarrow> string list" where
  \<comment> \<open>\<open>s.split()\<close>: the maximal runs of non-whitespace characters\<close>
  "py_split s = split_from [] s"

definition py_strip :: "string \<Rightarrow> string \<Rightarrow> string" where
  \<comment> \<open>\<open>s.strip(chars)\<close>\<close>
  "py_strip chars s =
     rev (dropWhile (\<lambda>ch. ch \<in> set chars) (rev (dropWhile (\<lambda>ch. ch \<in> set chars) s)))"

definition last_item :: "'a list \<Rightarrow> py_error + 'a" where
  \<comment> \<open>\<open>xs[-1]\<close>\<close>
  "last_item xs = (if xs = [] then Inl IndexError else Inr (last xs))"

definition item :: "'a list \<Rightarrow> nat \<Rightarrow> py_error + 'a" where
  \<comment> \<open>\<open>xs[i]\<close> for \<open>i >= 0\<close>\<close>
  "item xs i = (if i < length xs then Inr (xs ! i) else Inl IndexError)"

definition slice_step :: "'a list \<Rightarrow> nat \<Rightarrow> nat \<Rightarrow> 'a list" where
  \<comment> \<open>\<open>xs[start::step]\<close> for a positive step\<close>
  "slice_step xs start step =
     map (\<lambda>k. xs ! (start + step * k)) [0..<(length xs - start + (step - 1)) div step]"

subsection \<open>\<open>float\<close> on a string\<close>

definition is_digit :: "char \<Rightarrow> bool" where
  "is_digit ch = (ch \<in> set digit_chars)"

definition digit_val :: "char \<Rightarrow> nat" where
  "digit_val ch = of_char ch - 48"

definition nat_of_digits :: "string \<Rightarrow> nat" where
  "nat_of_digits ds = foldl (\<lambda>acc ch. 10 * acc + digit_val ch) 0 ds"

definition py_lower :: "string \<Rightarrow> string" where
  \<comment> \<open>ASCII letters to lower case\<close>
  "py_lower s =
     map (\<lambda>ch. if (65::nat) \<le> of_char ch \<and> of_char ch \<le> (90::nat)
               then char_of (of_char ch + (32::nat)) else ch) s"

definition split_sign :: "string \<Rightarrow> bool \<times> string" where
  \<comment> \<open>an optional sign: whether it is a minus, and what follows\<close>
  "split_sign s =
     (case s of
        ch # rest \<Rightarrow>
          (if ch = CHR ''-'' then (True, rest) else if ch = CHR ''+'' then (False, rest)
           else (False, s))
      | [] \<Rightarrow> (False, s))"

definition scale10 :: "real \<Rightarrow> bool \<Rightarrow> nat \<Rightarrow> real" where
  "scale10 v neg e = (if neg then v / 10 ^ e else v * 10 ^ e)"

fun underscores_ok :: "char \<Rightarrow> string \<Rightarrow> bool" where
  \<comment> \<open>an underscore stands between two digits; the first argument is the character
      before the string\<close>
  "underscores_ok prev [] = True"
| "underscores_ok prev (ch # rest) =
     ((if ch = CHR ''_'' then is_digit prev \<and> rest \<noteq> [] \<and> is_digit (hd rest) else True) \<and>
      underscores_ok ch rest)"

definition to_double :: "real \<Rightarrow> npfloat" where
  \<comment> \<open>the double a decimal value is read as: an infinity from the rounding threshold
      \<open>2^1024 - 2^970\<close> on, and below it the value itself (the rounding of a finite value
      to the nearest double is not modelled)\<close>
  "to_double v =
     (if 2 ^ 1024 - 2 ^ 970 \<le> \<bar>v\<bar> then (if v < 0 then NInf else PInf) else Fin v)"

definition py_float :: "string \<Rightarrow> py_error + npfloat" where
  \<comment> \<open>\<open>float(s)\<close>: surrounding whitespace, an optional sign, then \<open>inf\<close>,
      \<open>infinity\<close> or \<open>nan\<close> in any case, or a decimal number with an optional fraction
      and an optional exponent, where single underscores may stand between digits;
      anything else raises ValueError.\<close>
  "py_float s =
     (let body = rev (dropWhile py_isspace (rev (dropWhile py_isspace s)));
          (neg, u0) = split_sign body;
          u = filter (\<lambda>ch. ch \<noteq> CHR ''_'') u0;
          ip = takeWhile is_digit u;
          r1 = dropWhile is_digit u;
          has_point = (r1 \<noteq> [] \<and> hd r1 = CHR ''.'');
          fp = (if has_point then takeWhile is_digit (tl r1) else []);
          r2 = (if has_point then dropWhile is_digit (tl r1) else r1);
          (eneg, ed) = split_sign (tl r2);
          mant = real (nat_of_digits ip) + real (nat_of_digits fp) / 10 ^ length fp
      in if py_lower u0 = ''inf'' \<or> py_lower u0 = ''infinity'' then Inr (if neg then NInf else PInf)
         else if py_lower u0 = ''nan'' then Inr NaN
         else if \<not> underscores_ok CHR '' '' u0 then Inl ValueError
         else if ip = [] \<and> fp = [] then Inl ValueError
         else if r2 = [] then Inr (to_double (if neg then - mant else mant))
         else if (hd r2 = CHR ''e'' \<or> hd r2 = CHR ''E'') \<and> ed \<noteq> [] \<and> list_all is_digit ed
         then Inr (to_double (scale10 (if neg then - mant else mant) eneg (nat_of_digits ed)))
         else Inl ValueError)"

section \<open>The shot object and its surroundings\<close>

text \<open>
  What the loader reads from outside: the name \<open>platform.system()\<close> returns, the wave
  files \<open>igor.binarywave\<close> can load (by path, as the spacing and the samples) and the
  text files (by path, as the lines \<open>readlines\<close> returns).
\<close>

record env =
  machine :: string
  waves :: "string \<rightharpoonup> real \<times> npfloat list"
  text_files :: "string \<rightharpoonup> string list"

datatype group = GFluxLoops | GBDots | GCurrents

text \<open>
  A dict that is iterated is a list of pairs in insertion order; \<open>dict_set\<close> is
  \<open>d[k] = v\<close>. A calibrated channel is its \<open>'data'\<close> and its \<open>'time'\<close>.
\<close>

fun dict_set :: "('k \<times> 'v) list \<Rightarrow> 'k \<Rightarrow> 'v \<Rightarrow> ('k \<times> 'v) list" where
  "dict_set [] k v = [(k, v)]"
| "dict_set ((k', v') # d) k v = (if k' = k then (k, v) # d else (k', v') # dict_set d k v)"

type_synonym channel = "npfloat list \<times> real list"

record ShotData =
  shotnum :: int
  DataPath :: string
  raw :: "group \<Rightarrow> (string \<times> raw_signal) list"
  calData :: "group \<Rightarrow> (string \<times> channel) list"
  calFile :: "string \<rightharpoonup> npfloat \<times> string"
  printed :: "string list"

definition sigs :: "group \<Rightarrow> string list" where
  "sigs g = (case g of GFluxLoops \<Rightarrow> FluxLoops | GBDots \<Rightarrow> BDots | GCurrents \<Rightarrow> Currents)"

definition init :: "int \<Rightarrow> ShotData" where
  \<comment> \<open>\<open>ShotData.__init__\<close>\<close>
  "init n = \<lparr>shotnum = n, DataPath = [], raw = (\<lambda>g. []), calData = (\<lambda>g. []),
              calFile = Map.empty, printed = []\<rparr>"

definition bind :: "py_error + 'a \<Rightarrow> ('a \<Rightarrow> py_error + 'b) \<Rightarrow> py_error + 'b" where
  \<comment> \<open>one statement after another: an exception ends the sequence\<close>
  "bind r f = (case r of Inl e \<Rightarrow> Inl e | Inr a \<Rightarrow> f a)"

subsection \<open>\<open>getFolderPath\<close>\<close>

definition PathDict :: "string \<rightharpoonup> string" where
  \<comment> \<open>each root as \<open>path.join\<close> builds it on the machine it is for\<close>
  "PathDict = map_of
     [(''Darwin'', ''/Volumes/Pegasus_Data_Archive/p3data''),
      (''Windows'', ''P:p3data''),
      (''Linux'', ''/mnt/Pegasus_Data_Archive/p3data'')]"

definition path_join :: "string \<Rightarrow> string \<Rightarrow> string \<Rightarrow> string" where
  \<comment> \<open>\<open>path.join(a, b)\<close> on the machine \<open>m\<close>, as \<open>posixpath.join\<close> computes it. On
      Windows the separator is the backslash; \<open>ntpath.join\<close> agrees where \<open>b\<close> has
      neither a drive nor a forward slash, which is all the loader joins.\<close>
  "path_join m a b =
     (let sep = (if m = ''Windows'' then [CHR 0x5C] else ''/'')
      in if take 1 b = sep then b
         else if a = [] \<or> [last a] = sep then a @ b
         else a @ sep @ b)"

definition shotstr_of :: "int \<Rightarrow> string" where
  "shotstr_of n =
     (if length (str_int n) = 4 then ''00'' @ str_int n
      else if length (str_int n) = 5 then ''0'' @ str_int n
      else str_int n)"

definition getFolderPath :: "env \<Rightarrow> ShotData \<Rightarrow> py_error + ShotData" where
  "getFolderPath ev self =
     bind (getitem PathDict (machine ev)) (\<lambda>DataPathRoot.
       let shotstr = shotstr_of (shotnum self);
           f1Str = take 2 shotstr @ ''0000'';
           f2Str = take 2 (drop 2 shotstr) @ ''00'';
           fName = ''T'' @ shotstr;
           PathName = path_join (machine ev)
                        (path_join (machine ev) (path_join (machine ev) DataPathRoot f1Str) f2Str)
                        fName
       in Inr (self\<lparr>DataPath := PathName\<rparr>))"

subsection \<open>\<open>IgorLoad\<close> and \<open>LoadRaw\<close>\<close>

definition IgorLoad :: "env \<Rightarrow> string \<Rightarrow> string \<Rightarrow> raw_signal \<times> string list" where
  \<comment> \<open>with \<open>quiet=True\<close>, as \<open>LoadRaw\<close> calls it; the second component is what it
      prints\<close>
  "IgorLoad ev signame pathname =
     (let sig = signame @ ''.ibw''
      in case waves ev (path_join (machine ev) pathname sig) of
           Some (deltaX, wData) \<Rightarrow> (Wave deltaX wData, [])
         | None \<Rightarrow> (NotLoaded, [sig @ '' not loaded - file not found'']))"

fun LoadRaw_sigs :: "env \<Rightarrow> group \<Rightarrow> string list \<Rightarrow> ShotData \<Rightarrow> ShotData" where
  "LoadRaw_sigs ev g [] self = self"
| "LoadRaw_sigs ev g (sig # rest) self =
     (let (r, out) = IgorLoad ev sig (DataPath self)
      in LoadRaw_sigs ev g rest
           (self\<lparr>raw := (raw self)(g := dict_set (raw self g) sig r),
                 printed := printed self @ out\<rparr>))"

definition LoadRaw :: "env \<Rightarrow> ShotData \<Rightarrow> ShotData" where
  "LoadRaw ev self =
     foldl (\<lambda>s g. LoadRaw_sigs ev g (sigs g) s)
       (self\<lparr>printed := printed self @ [DataPath self]\<rparr>)
       [GFluxLoops, GBDots, GCurrents]"

subsection \<open>\<open>LoadCalData\<close>\<close>

definition cal_entry :: "string list \<Rightarrow> string list \<Rightarrow> nat \<Rightarrow> py_error + npfloat \<times> string" where
  \<comment> \<open>\<open>[float(CalVals[i].split()[-1]), CalUnits[i].split()[-1]]\<close>\<close>
  "cal_entry CalVals CalUnits i =
     bind (item CalVals i) (\<lambda>vline.
     bind (last_item (py_split vline)) (\<lambda>vtok.
     bind (py_float vtok) (\<lambda>v.
     bind (item CalUnits i) (\<lambda>uline.
     bind (last_item (py_split uline)) (\<lambda>u. Inr (v, u))))))"

fun LoadCal_loop ::
  "string list \<Rightarrow> string list \<Rightarrow> string list \<Rightarrow> nat list \<Rightarrow> ShotData \<Rightarrow> py_error + ShotData"
where
  "LoadCal_loop DiagNames CalVals CalUnits [] self = Inr self"
| "LoadCal_loop DiagNames CalVals CalUnits (i # rest) self =
     bind (cal_entry CalVals CalUnits i) (\<lambda>entry.
       LoadCal_loop DiagNames CalVals CalUnits rest
         (self\<lparr>calFile := (calFile self)(py_strip (''[]'' @ [CHR 0x0A]) (DiagNames ! i) \<mapsto> entry)\<rparr>))"

definition LoadCalData :: "env \<Rightarrow> ShotData \<Rightarrow> py_error + ShotData" where
  "LoadCalData ev self =
     (case text_files ev (path_join (machine ev) (DataPath self) ''DAS.conf'') of
        None \<Rightarrow> Inl FileNotFoundError
      | Some lines \<Rightarrow>
          (let DiagLines = drop 64 lines;
               DiagNames = slice_step DiagLines 0 7;
               CalVals = slice_step DiagLines 4 7;
               CalUnits = slice_step DiagLines 3 7
           in LoadCal_loop DiagNames CalVals CalUnits [0..<length DiagNames] self))"

subsection \<open>\<open>CalcIp\<close>, \<open>ProcFL\<close> and \<open>ProcBdot\<close>\<close>

definition scale_by :: "npfloat \<Rightarrow> npfloat list \<Rightarrow> npfloat list" where
  \<comment> \<open>a number times an array\<close>
  "scale_by k xs = map (fmul k) xs"

definition CalcIp :: "ShotData \<Rightarrow> py_error + ShotData" where
  "CalcIp self =
     bind (getitem (map_of (raw self GCurrents)) ''PlasmaRogB'') (\<lambda>PlasRogRaw.
     bind (CleanUp PlasRogRaw True) (\<lambda>(cleanSig, cleanSigTime).
     bind (getitem (calFile self) ''PlasmaRogB'') (\<lambda>cal.
       Inr (self\<lparr>calData := (calData self)
              (GCurrents := dict_set (calData self GCurrents) ''Ip''
                              (scale_by (fst cal) cleanSig, cleanSigTime))\<rparr>))))"

definition except_TypeError ::
  "string \<Rightarrow> py_error + channel \<Rightarrow> py_error + channel \<times> string list" where
  \<comment> \<open>the \<open>try\<close> of both loops: a TypeError is caught, the channel becomes two empty
      lists and a line is printed; any other exception goes on.\<close>
  "except_TypeError sig r =
     (case r of
        Inr ch \<Rightarrow> Inr (ch, [])
      | Inl TypeError \<Rightarrow> Inr (([], []), [''no data for '' @ sig])
      | Inl e \<Rightarrow> Inl e)"

definition store :: "group \<Rightarrow> string \<Rightarrow> channel \<times> string list \<Rightarrow> ShotData \<Rightarrow> ShotData" where
  \<comment> \<open>\<open>self.calData[group][sig] = {'data': calSig, 'time': cleanSigTime}\<close>, after the
      line the handler printed, if any\<close>
  "store g sig r self =
     self\<lparr>calData := (calData self)(g := dict_set (calData self g) sig (fst r)),
          printed := printed self @ snd r\<rparr>"

fun ProcBdot_loop :: "(string \<times> raw_signal) list \<Rightarrow> ShotData \<Rightarrow> py_error + ShotData" where
  "ProcBdot_loop [] self = Inr self"
| "ProcBdot_loop ((sig, rawSig) # rest) self =
     bind (except_TypeError sig
             (bind (CleanUp rawSig True) (\<lambda>(cleanSig, cleanSigTime).
              bind (getitem BdotNA sig) (\<lambda>na.
              bind (getitem (calFile self) sig) (\<lambda>cal.
                Inr (scale_by (fmul (Fin na) (fst cal)) cleanSig, cleanSigTime))))))
       (\<lambda>r. ProcBdot_loop rest (store GBDots sig r self))"

definition ProcBdot :: "ShotData \<Rightarrow> py_error + ShotData" where
  "ProcBdot self = ProcBdot_loop (raw self GBDots) self"

fun ProcFL_loop :: "(string \<times> raw_signal) list \<Rightarrow> ShotData \<Rightarrow> py_error + ShotData" where
  "ProcFL_loop [] self = Inr self"
| "ProcFL_loop ((sig, rawSig) # rest) self =
     bind (except_TypeError sig
             (bind (CleanUp rawSig True) (\<lambda>(cleanSig, cleanSigTime).
              bind (getitem (calFile self) sig) (\<lambda>cal.
                Inr (scale_by (fst cal) cleanSig, cleanSigTime)))))
       (\<lambda>r. ProcFL_loop rest (store GFluxLoops sig r self))"

definition ProcFL :: "ShotData \<Rightarrow> py_error + ShotData" where
  "ProcFL self = ProcFL_loop (raw self GFluxLoops) self"

subsection \<open>\<open>main\<close>\<close>

definition TestPlot :: "ShotData \<Rightarrow> py_error + ShotData" where
  \<comment> \<open>reads the \<open>Ip\<close> channel and hands it to matplotlib; the plot is not modelled\<close>
  "TestPlot self =
     bind (getitem (map_of (calData self GCurrents)) ''Ip'') (\<lambda>ch. Inr self)"

definition main :: "env \<Rightarrow> int \<Rightarrow> py_error + ShotData" where
  "main ev shot =
     bind (getFolderPath ev (init shot)) (\<lambda>s1.
     bind (LoadCalData ev (LoadRaw ev s1)) (\<lambda>s3.
     bind (CalcIp s3) (\<lambda>s4.
     bind (ProcFL s4) (\<lambda>s5.
     bind (ProcBdot s5) TestPlot))))"

section \<open>Facts about \<open>CleanUp\<close>\<close>

lemma length_sigTime_of [simp]: "length (sigTime_of dx n) = n"
  by (simp add: sigTime_of_def)

lemma nth_sigTime_of [simp]: "i < n \<Longrightarrow> sigTime_of dx n ! i = dx * real i"
  by (simp add: sigTime_of_def)

lemma last_sigTime_of: "0 < n \<Longrightarrow> last (sigTime_of dx n) = dx * real (n - 1)"
  by (simp add: sigTime_of_def last_map)

lemma length_drift_spec [simp]: "length (drift_spec t off) = length off"
  by (simp add: drift_spec_def Let_def)

lemma nth_drift_spec:
  "i < length off \<Longrightarrow> drift_spec t off ! i =
     fsub (off ! i)
       (fdiv (fmul (fsub (last off) (off ! 0)) (Fin (t ! i))) (Fin (last t - t ! 0)))"
  by (simp add: drift_spec_def Let_def)

lemma endpoint_fix:
  assumes "finite_or_nan (fsub y x)" "T \<noteq> 0"
  shows "fsub y (fsub x (fdiv (fmul (fsub y x) (Fin 0)) (Fin T))) = fsub y x"
  using assms by (cases x; cases y) (simp_all add: fsub_def)

lemma foldl_drift_step:
  assumes len: "length t = length off"
    and t0: "t ! 0 = 0"
    and T: "last t - t ! 0 \<noteq> 0"
    and fd: "finite_or_nan (fsub (last off) (off ! 0))"
  shows "k \<le> length off \<Longrightarrow>
    foldl (drift_step t) off [0..<k] = take k (drift_spec t off) @ drop k off"
proof (induction k)
  case 0
  then show ?case by simp
next
  case (Suc k)
  let ?s = "drift_spec t off"
  let ?cur = "take k ?s @ drop k off"
  from Suc.prems have k: "k < length off" by simp
  have IH: "foldl (drift_step t) off [0..<k] = ?cur"
    using Suc.IH k by simp
  have curk: "?cur ! k = off ! k"
    using k by (simp add: nth_append)
  have lastcur: "last ?cur = last off"
    using k by simp
  have sk: "?s ! k = fsub (off ! k)
      (fdiv (fmul (fsub (last off) (off ! 0)) (Fin (t ! k))) (Fin (last t - t ! 0)))"
    using k by (rule nth_drift_spec)
  have s0: "?s ! 0 = fsub (off ! 0)
      (fdiv (fmul (fsub (last off) (off ! 0)) (Fin 0)) (Fin (last t - t ! 0)))"
  proof -
    from k have "0 < length off" by (cases off) simp_all
    from nth_drift_spec[OF this, of t] t0 show ?thesis by simp
  qed
  have D: "fsub (last ?cur) (?cur ! 0) = fsub (last off) (off ! 0)"
  proof (cases k)
    case 0
    then show ?thesis using k by (simp add: hd_drop_conv_nth)
  next
    case (Suc j)
    then have "?cur ! 0 = ?s ! 0" using k by (simp add: nth_append)
    then show ?thesis
      using lastcur s0 endpoint_fix[OF fd T] by simp
  qed
  have step: "drift_step t ?cur k = ?cur[k := ?s ! k]"
    unfolding drift_step_def D curk sk ..
  have upd: "?cur[k := ?s ! k] = take (Suc k) ?s @ drop (Suc k) off"
    using k by (simp add: list_update_append take_Suc_conv_app_nth Cons_nth_drop_Suc[symmetric] del: drop_Suc)
  show ?case
    using IH step upd by simp
qed

lemma drift_loop_eq_spec:
  assumes "length t = length off" "t ! 0 = 0" "last t - t ! 0 \<noteq> 0"
    "finite_or_nan (fsub (last off) (off ! 0))"
  shows "drift_loop t off = drift_spec t off"
  using foldl_drift_step[OF assms, of "length off"]
  by (simp add: drift_loop_def)


lemma length_cumsum_from [simp]: "length (cumsum_from a vs) = length vs"
  by (induction vs arbitrary: a) simp_all

lemma length_cumsum [simp]: "length (cumsum vs) = length vs"
  by (cases vs) simp_all

lemma finite_or_nan_fadd: "finite_or_nan a \<Longrightarrow> finite_or_nan b \<Longrightarrow> finite_or_nan (fadd a b)"
  by (cases a; cases b) simp_all

lemma finite_or_nan_fsub: "finite_or_nan a \<Longrightarrow> finite_or_nan b \<Longrightarrow> finite_or_nan (fsub a b)"
  by (cases a; cases b) (simp_all add: fsub_def)

lemma finite_or_nan_trapezoid:
  "finite_or_nan a \<Longrightarrow> finite_or_nan b \<Longrightarrow> c \<noteq> 0 \<Longrightarrow>
   finite_or_nan (fdiv (fmul (Fin d) (fadd a b)) (Fin c))"
  by (cases a; cases b) simp_all

lemma is_Fin_fadd: "is_Fin a \<Longrightarrow> is_Fin b \<Longrightarrow> is_Fin (fadd a b)"
  by (cases a; cases b) simp_all

lemma is_Fin_trapezoid:
  "is_Fin a \<Longrightarrow> is_Fin b \<Longrightarrow> c \<noteq> 0 \<Longrightarrow>
   is_Fin (fdiv (fmul (Fin d) (fadd a b)) (Fin c))"
  by (cases a; cases b) simp_all

lemma finite_or_nan_cumsum_from:
  "finite_or_nan a \<Longrightarrow> list_all finite_or_nan vs \<Longrightarrow> list_all finite_or_nan (cumsum_from a vs)"
  by (induction vs arbitrary: a) (simp_all add: finite_or_nan_fadd)

lemma finite_or_nan_cumsum:
  "list_all finite_or_nan vs \<Longrightarrow> list_all finite_or_nan (cumsum vs)"
  by (cases vs) (simp_all add: finite_or_nan_cumsum_from)

lemma is_Fin_cumsum_from:
  "is_Fin a \<Longrightarrow> list_all is_Fin vs \<Longrightarrow> list_all is_Fin (cumsum_from a vs)"
  by (induction vs arbitrary: a) (simp_all add: is_Fin_fadd)

lemma is_Fin_cumsum: "list_all is_Fin vs \<Longrightarrow> list_all is_Fin (cumsum vs)"
  by (cases vs) (simp_all add: is_Fin_cumsum_from)

lemma length_diff [simp]: "length (diff x) = length x - 1"
  by (simp add: diff_def)

lemma cumtrapz_nonempty:
  assumes "length x = length y" "y \<noteq> []"
  shows "cumtrapz y x = Inr (Fin 0 #
     cumsum (map (\<lambda>j. fdiv (fmul (Fin (diff x ! j)) (fadd (y ! (j + 1)) (y ! j))) (Fin 2.0))
               [0..<length y - 1]))"
proof -
  from assms have "int (length (diff x)) = int (length y) - 1"
    by (cases y) simp_all
  with assms show ?thesis by (simp add: cumtrapz_def Let_def)
qed

lemma cumtrapz_props:
  assumes len: "length x = length y" and ne: "y \<noteq> []"
  shows "\<exists>r. cumtrapz y x = Inr r \<and> length r = length y \<and>
           (list_all finite_or_nan y \<longrightarrow> list_all finite_or_nan r) \<and>
           (list_all is_Fin y \<longrightarrow> list_all is_Fin r)"
proof -
  let ?ts = "map (\<lambda>j. fdiv (fmul (Fin (diff x ! j)) (fadd (y ! (j + 1)) (y ! j))) (Fin 2.0))
               [0..<length y - 1]"
  have eq: "cumtrapz y x = Inr (Fin 0 # cumsum ?ts)"
    using cumtrapz_nonempty[OF len ne] .
  have l: "length (Fin 0 # cumsum ?ts) = length y"
    using ne by (cases y) simp_all
  have a: "list_all finite_or_nan (Fin 0 # cumsum ?ts)" if "list_all finite_or_nan y"
  proof -
    have "finite_or_nan (y ! j)" if "j < length y" for j
      using that \<open>list_all finite_or_nan y\<close> by (simp add: list_all_length)
    then have "list_all finite_or_nan ?ts"
      by (simp add: list_all_iff finite_or_nan_trapezoid)
    then show ?thesis by (simp add: finite_or_nan_cumsum)
  qed
  have b: "list_all is_Fin (Fin 0 # cumsum ?ts)" if "list_all is_Fin y"
  proof -
    have "is_Fin (y ! j)" if "j < length y" for j
      using that \<open>list_all is_Fin y\<close> by (simp add: list_all_length)
    then have "list_all is_Fin ?ts"
      by (simp add: list_all_iff is_Fin_trapezoid)
    then show ?thesis by (simp add: is_Fin_cumsum)
  qed
  from eq l a b show ?thesis by blast
qed

lemma foldl_fadd_Fin: "foldl fadd (Fin a) (map Fin xs) = Fin (a + sum_list xs)"
  by (induction xs arbitrary: a) (simp_all add: add.assoc)

lemma np_mean_Fin:
  "np_mean (map Fin xs) = (if xs = [] then NaN else Fin (sum_list xs / real (length xs)))"
  by (simp add: np_mean_def foldl_fadd_Fin)

lemma dRange_lt: "i \<in> set (dRange_of t) \<Longrightarrow> i < length t"
  by (simp add: dRange_of_def)

lemma window_samples_Fin:
  "map (\<lambda>i. map Fin sig ! i) (dRange_of (sigTime_of dx (length sig))) =
     map Fin (map (\<lambda>i. sig ! i) (dRange_of (sigTime_of dx (length sig))))"
  using dRange_lt[of _ "sigTime_of dx (length sig)"] by (simp add: sigTime_of_def)

lemma offSig_cases:
  "list_all finite_or_nan (map (\<lambda>s. fsub s (np_mean (map Fin ys))) (map Fin sig)) \<and>
   (ys \<noteq> [] \<longrightarrow> list_all is_Fin (map (\<lambda>s. fsub s (np_mean (map Fin ys))) (map Fin sig)))"
  by (simp add: np_mean_Fin fsub_def list_all_iff)

lemma pre_drift_length:
  assumes ne: "sig \<noteq> []"
  shows "\<exists>off. pre_drift dx sig intFlag = Inr off \<and> length off = length sig"
proof -
  let ?m = "np_mean (map (\<lambda>i. sig ! i) (dRange_of (sigTime_of dx (length sig))))"
  let ?off = "map (\<lambda>s. fsub s ?m) sig"
  show ?thesis
  proof (cases intFlag)
    case False
    then have "pre_drift dx sig intFlag = Inr ?off"
      by (simp add: pre_drift_def Let_def)
    then show ?thesis by simp
  next
    case True
    have "length (sigTime_of dx (length sig)) = length ?off" "?off \<noteq> []"
      using ne by (simp_all add: sigTime_of_def)
    from cumtrapz_props[OF this] obtain r where
      r: "cumtrapz ?off (sigTime_of dx (length sig)) = Inr r" "length r = length ?off"
      by blast
    from True r(1) have "pre_drift dx sig intFlag = Inr r"
      by (simp add: pre_drift_def Let_def)
    with r show ?thesis by simp
  qed
qed

lemma pre_drift_props:
  assumes ne: "sig \<noteq> []"
  shows "\<exists>off. pre_drift dx (map Fin sig) intFlag = Inr off \<and> length off = length sig \<and>
           list_all finite_or_nan off \<and>
           (dRange_of (sigTime_of dx (length sig)) \<noteq> [] \<longrightarrow> list_all is_Fin off)"
proof -
  let ?rs = "map (\<lambda>i. sig ! i) (dRange_of (sigTime_of dx (length sig)))"
  let ?off = "map (\<lambda>s. fsub s (np_mean (map Fin ?rs))) (map Fin sig)"
  have fo: "list_all finite_or_nan ?off"
    and fi: "?rs \<noteq> [] \<longrightarrow> list_all is_Fin ?off"
    using offSig_cases[of ?rs sig] by blast+
  have pd: "pre_drift dx (map Fin sig) intFlag =
      (if intFlag then cumtrapz ?off (sigTime_of dx (length sig)) else Inr ?off)"
    by (simp add: pre_drift_def Let_def window_samples_Fin)
  show ?thesis
  proof (cases intFlag)
    case False
    with pd have "pre_drift dx (map Fin sig) intFlag = Inr ?off"
      by simp
    with fo fi show ?thesis by simp
  next
    case True
    have "length (sigTime_of dx (length sig)) = length ?off" "?off \<noteq> []"
      using ne by (simp_all add: sigTime_of_def)
    from cumtrapz_props[OF this] obtain r where
      r: "cumtrapz ?off (sigTime_of dx (length sig)) = Inr r" "length r = length ?off"
         "list_all finite_or_nan ?off \<longrightarrow> list_all finite_or_nan r"
         "list_all is_Fin ?off \<longrightarrow> list_all is_Fin r"
      by blast
    from True r(1) pd have "pre_drift dx (map Fin sig) intFlag = Inr r"
      by simp
    with r fo fi show ?thesis by simp
  qed
qed


lemma sigTime_of_0: "0 < n \<Longrightarrow> sigTime_of dx n ! 0 = 0"
  by simp

lemma sigTime_span: "0 < n \<Longrightarrow>
  last (sigTime_of dx n) - sigTime_of dx n ! 0 = dx * real (n - 1)"
  by (simp add: last_sigTime_of)

lemma sigTime_span_nonzero:
  assumes "2 \<le> n" "0 < dx"
  shows "last (sigTime_of dx n) - sigTime_of dx n ! 0 \<noteq> 0"
proof -
  from assms(1) have npos: "0 < n" by linarith
  have "dx * real (n - 1) \<noteq> 0" using assms by simp
  then show ?thesis unfolding sigTime_span[OF npos] .
qed

lemma set_dRange_of:
  "set (dRange_of (sigTime_of dx n)) = {i. i < n \<and> 0 < dx * real i \<and> dx * real i < 1 / 1000}"
  by (auto simp: dRange_of_def dStart_def dEnd_def)

lemma dRange_nonempty:
  assumes "2 \<le> n" "0 < dx" "dx < dEnd"
  shows "dRange_of (sigTime_of dx n) \<noteq> []"
proof -
  from assms have "1 \<in> set (dRange_of (sigTime_of dx n))"
    by (simp add: set_dRange_of dEnd_def)
  then show ?thesis by auto
qed

lemma CleanUp_slope:
  assumes n: "2 \<le> length sig" and dx: "0 < dx"
    and pd: "pre_drift dx sig intFlag = Inr off"
    and fd: "finite_or_nan (fsub (last off) (off ! 0))"
  shows "drift_loop (sigTime_of dx (length sig)) off =
           drift_spec (sigTime_of dx (length sig)) off \<and>
         CleanUp (Wave dx sig) intFlag =
           Inr (drift_spec (sigTime_of dx (length sig)) off, sigTime_of dx (length sig))"
proof -
  let ?t = "sigTime_of dx (length sig)"
  from n have ne: "sig \<noteq> []" by auto
  from pre_drift_length[OF ne, of dx intFlag] pd have l: "length off = length sig"
    by simp
  have len: "length ?t = length off"
    using l by (simp add: sigTime_of_def)
  from n have npos: "0 < length sig" by linarith
  have t0: "?t ! 0 = 0"
    using sigTime_of_0[OF npos] .
  have T: "last ?t - ?t ! 0 \<noteq> 0"
    using sigTime_span_nonzero[OF n dx] .
  have "drift_loop ?t off = drift_spec ?t off"
    using drift_loop_eq_spec[OF len t0 T fd] .
  with pd show ?thesis by (simp add: Let_def)
qed

lemma CleanUp_via_spec:
  assumes n: "2 \<le> length sig" and dx: "0 < dx"
  shows "\<exists>offSig. pre_drift dx (map Fin sig) intFlag = Inr offSig \<and>
           length offSig = length sig \<and>
           (dRange_of (sigTime_of dx (length sig)) \<noteq> [] \<longrightarrow> list_all is_Fin offSig) \<and>
           CleanUp (Wave dx (map Fin sig)) intFlag =
             Inr (drift_spec (sigTime_of dx (length sig)) offSig, sigTime_of dx (length sig))"
proof -
  let ?t = "sigTime_of dx (length sig)"
  from n have ne: "sig \<noteq> []" by auto
  from pre_drift_props[OF ne, of dx intFlag] obtain off where
    off: "pre_drift dx (map Fin sig) intFlag = Inr off" "length off = length sig"
      "list_all finite_or_nan off"
      "dRange_of ?t \<noteq> [] \<longrightarrow> list_all is_Fin off"
    by blast
  from n off(2) have pos: "0 < length off" by linarith
  then have offne: "off \<noteq> []" by auto
  have f0: "finite_or_nan (off ! 0)"
    using off(3) pos by (simp add: list_all_length)
  have fl: "finite_or_nan (last off)"
    using off(3) offne by (simp add: list_all_iff)
  have n': "2 \<le> length (map Fin sig)"
    using n by simp
  from CleanUp_slope[OF n' dx off(1) finite_or_nan_fsub[OF fl f0]]
  have "CleanUp (Wave dx (map Fin sig)) intFlag = Inr (drift_spec ?t off, ?t)"
    by simp
  with off show ?thesis by blast
qed

lemma drift_spec_ends:
  assumes n: "2 \<le> n" and dx: "0 < dx" and len: "length off = n"
    and fin: "list_all is_Fin off"
  shows "\<exists>a. drift_spec (sigTime_of dx n) off ! 0 = Fin a \<and>
             last (drift_spec (sigTime_of dx n) off) = Fin a"
proof -
  let ?t = "sigTime_of dx n"
  from n len have pos: "0 < length off" and offne: "off \<noteq> []" by auto
  from fin pos obtain a where a: "off ! 0 = Fin a"
    by (cases "off ! 0") (auto simp: list_all_length)
  from fin offne have "is_Fin (last off)" by (simp add: list_all_iff)
  then obtain b where b: "last off = Fin b"
    by (cases "last off") auto
  from n have npos: "0 < n" by linarith
  have span: "last ?t - ?t ! 0 = dx * real (n - 1)"
    using sigTime_span[OF npos] .
  have nz: "dx * real (n - 1) \<noteq> 0"
    using n dx by simp
  have "drift_spec ?t off ! 0 = fsub (Fin a)
      (fdiv (fmul (fsub (Fin b) (Fin a)) (Fin 0)) (Fin (dx * real (n - 1))))"
    using nth_drift_spec[OF pos, of ?t, unfolded span] unfolding a b sigTime_of_0[OF npos] .
  then have first: "drift_spec ?t off ! 0 = Fin a"
    using nz by (simp add: fsub_def)
  have lastn: "last off = off ! (n - 1)"
    using offne len by (simp add: last_conv_nth)
  have sne: "drift_spec ?t off \<noteq> []"
    using offne length_drift_spec[of ?t off] by (metis length_0_conv)
  have "last (drift_spec ?t off) = drift_spec ?t off ! (n - 1)"
    using last_conv_nth[OF sne] len by simp
  also have "\<dots> = fsub (Fin b)
      (fdiv (fmul (fsub (Fin b) (Fin a)) (Fin (dx * real (n - 1)))) (Fin (dx * real (n - 1))))"
  proof -
    have lt: "n - 1 < length off" using npos len by simp
    have tn: "?t ! (n - 1) = dx * real (n - 1)" using npos by simp
    show ?thesis
      using nth_drift_spec[OF lt, of ?t, unfolded span] unfolding a b lastn[symmetric] tn .
  qed
  also have "\<dots> = Fin a"
    using nz by (simp add: fsub_def)
  finally show ?thesis using first by blast
qed

lemma fadd_NaN_right [simp]: "fadd a NaN = NaN"
  by (cases a) simp_all

lemma fmul_NaN_right [simp]: "fmul a NaN = NaN"
  by (cases a) simp_all

lemma fsub_NaN [simp]: "fsub a NaN = NaN" "fsub NaN b = NaN"
  by (simp_all add: fsub_def)

lemma cumsum_from_const:
  "fadd a c = c \<Longrightarrow> fadd c c = c \<Longrightarrow> cumsum_from a (replicate k c) = replicate k c"
  by (induction k arbitrary: a) simp_all

lemma cumsum_const: "fadd c c = c \<Longrightarrow> cumsum (replicate k c) = replicate k c"
  by (cases k) (simp_all add: cumsum_from_const)

lemma map_upt_const: "map (\<lambda>i. c) [0..<n] = replicate n c"
  by (simp add: map_replicate_const)

lemma replicate_update_same: "(replicate n x)[i := x] = replicate n x"
  by (cases "i < n") (auto intro!: nth_equalityI simp: nth_list_update)

lemma foldl_fixed: "(\<And>i. i \<in> set is \<Longrightarrow> f a i = a) \<Longrightarrow> foldl f a is = a"
  by (induction "is") simp_all

lemma drift_step_NaN:
  "i < n \<Longrightarrow> drift_step t (replicate n NaN) i = replicate n NaN"
  by (simp add: drift_step_def replicate_update_same)

lemma drift_loop_NaN: "drift_loop t (replicate n NaN) = replicate n NaN"
  unfolding drift_loop_def by (rule foldl_fixed) (simp add: drift_step_NaN)

lemma cumtrapz_const:
  assumes "0 < n" "length x = n" "c = NaN \<or> c = Fin 0"
  shows "cumtrapz (replicate n c) x = Inr (Fin 0 # replicate (n - 1) c)"
proof -
  have ne: "replicate n c \<noteq> []" using assms(1) by simp
  have len: "length x = length (replicate n c)" using assms(2) by simp
  have "map (\<lambda>j. fdiv (fmul (Fin (diff x ! j))
              (fadd (replicate n c ! (j + 1)) (replicate n c ! j))) (Fin 2.0))
          [0..<length (replicate n c) - 1] = map (\<lambda>j. c) [0..<n - 1]"
    using assms(3) by (intro map_cong) auto
  then show ?thesis
    using cumtrapz_nonempty[OF len ne] assms(3)
    by (auto simp: map_upt_const cumsum_const)
qed

lemma drift_loop_head_NaN:
  assumes n: "0 < n"
  shows "drift_loop (sigTime_of dx n) (Fin 0 # replicate (n - 1) NaN) = replicate n NaN"
proof -
  let ?t = "sigTime_of dx n"
  let ?c = "Fin 0 # replicate (n - 1) NaN"
  have upt: "[0..<length ?c] = 0 # [1..<n]"
    using n by (simp add: upt_conv_Cons)
  have step0: "drift_step ?t ?c 0 = replicate n NaN"
  proof (cases "n = 1")
    case True
    then show ?thesis
      by (simp add: drift_step_def fsub_def sigTime_of_def)
  next
    case False
    with n have "last ?c = NaN" by simp
    moreover have "NaN # replicate (n - 1) NaN = replicate n NaN"
      using n by (cases n) simp_all
    ultimately show ?thesis
      by (simp add: drift_step_def)
  qed
  have "foldl (drift_step ?t) (replicate n NaN) [1..<n] = replicate n NaN"
    by (rule foldl_fixed) (simp add: drift_step_NaN)
  with upt step0 show ?thesis
    by (simp add: drift_loop_def)
qed

lemma CleanUp_empty_window:
  assumes ne: "sig \<noteq> []" and w: "dRange_of (sigTime_of dx (length sig)) = []"
  shows "CleanUp (Wave dx sig) intFlag =
           Inr (replicate (length sig) NaN, sigTime_of dx (length sig))"
proof -
  let ?n = "length sig"
  from ne have n: "0 < ?n" by simp
  have off: "map (\<lambda>s. fsub s (np_mean (map (\<lambda>i. sig ! i) []))) sig = replicate ?n NaN"
    by (simp add: np_mean_def map_replicate_const)
  show ?thesis
  proof (cases intFlag)
    case False
    then have "pre_drift dx sig intFlag = Inr (replicate ?n NaN)"
      using w off by (simp add: pre_drift_def Let_def)
    then show ?thesis by (simp add: drift_loop_NaN Let_def)
  next
    case True
    then have "pre_drift dx sig intFlag = Inr (Fin 0 # replicate (?n - 1) NaN)"
      using w off cumtrapz_const[OF n, of "sigTime_of dx ?n" NaN]
      by (simp add: pre_drift_def Let_def)
    then show ?thesis
      using drift_loop_head_NaN[OF n, of dx] by (simp add: Let_def)
  qed
qed

lemma degenerate_window_empty:
  assumes "last (sigTime_of dx n) = sigTime_of dx n ! 0" "0 < n"
  shows "dRange_of (sigTime_of dx n) = []"
proof -
  from assms have "dx * real (n - 1) = 0"
    by (simp add: last_sigTime_of)
  then have "dx = 0 \<or> n = 1" using assms(2) by auto
  then have "set (dRange_of (sigTime_of dx n)) = {}"
    unfolding set_dRange_of by auto
  then show ?thesis by simp
qed


lemma np_mean_const: "0 < k \<Longrightarrow> np_mean (replicate k (Fin c)) = Fin c"
  using np_mean_Fin[of "replicate k c"] by (simp add: sum_list_replicate)

lemma map_const_on: "(\<And>x. x \<in> set xs \<Longrightarrow> f x = c) \<Longrightarrow> map f xs = replicate (length xs) c"
  by (induction xs) simp_all

lemma drift_spec_zeros:
  assumes "last t - t ! 0 \<noteq> 0"
  shows "drift_spec t (replicate n (Fin 0)) = replicate n (Fin 0)"
proof (rule nth_equalityI)
  show "length (drift_spec t (replicate n (Fin 0))) = length (replicate n (Fin 0))"
    by simp
next
  fix i assume "i < length (drift_spec t (replicate n (Fin 0)))"
  then have i: "i < n" by simp
  then have l: "last (replicate n (Fin 0)) = Fin 0" by (cases n) simp_all
  from i have "i < length (replicate n (Fin 0))" by simp
  from nth_drift_spec[OF this, of t] i l assms
  show "drift_spec t (replicate n (Fin 0)) ! i = replicate n (Fin 0) ! i"
    by (simp add: fsub_def)
qed

lemma CleanUp_const:
  assumes n: "2 \<le> n" and dx: "0 < dx" and dx1: "dx < dEnd"
  shows "CleanUp (Wave dx (replicate n (Fin c))) intFlag =
           Inr (replicate n (Fin 0), sigTime_of dx n)"
proof -
  let ?t = "sigTime_of dx n"
  let ?sig = "replicate n (Fin c)"
  from n have npos: "0 < n" by linarith
  have w: "dRange_of ?t \<noteq> []"
    using dRange_nonempty[OF n dx dx1] .
  have "map (\<lambda>i. ?sig ! i) (dRange_of ?t) = replicate (length (dRange_of ?t)) (Fin c)"
    by (rule map_const_on) (simp add: set_dRange_of)
  then have mean: "np_mean (map (\<lambda>i. ?sig ! i) (dRange_of ?t)) = Fin c"
    using w by (simp add: np_mean_const)
  have off: "map (\<lambda>s. fsub s (Fin c)) ?sig = replicate n (Fin 0)"
    by (simp add: fsub_def)
  have pd0: "pre_drift dx ?sig intFlag =
      (if intFlag then cumtrapz (replicate n (Fin 0)) ?t else Inr (replicate n (Fin 0)))"
    by (simp only: pre_drift_def Let_def length_replicate mean off)
  have "Fin 0 # replicate (n - 1) (Fin 0) = replicate n (Fin 0)"
    using npos by (cases n) simp_all
  then have "cumtrapz (replicate n (Fin 0)) ?t = Inr (replicate n (Fin 0))"
    using cumtrapz_const[OF npos, of ?t "Fin 0"] by simp
  with pd0 have pd: "pre_drift dx ?sig intFlag = Inr (replicate n (Fin 0))"
    by simp
  have T: "last ?t - ?t ! 0 \<noteq> 0"
    using sigTime_span_nonzero[OF n dx] .
  have fd: "finite_or_nan (fsub (last (replicate n (Fin 0))) (replicate n (Fin 0) ! 0))"
    using npos by (simp add: fsub_def)
  have n': "2 \<le> length ?sig" using n by simp
  from CleanUp_slope[OF n' dx pd fd]
  have "CleanUp (Wave dx ?sig) intFlag = Inr (drift_spec ?t (replicate n (Fin 0)), ?t)"
    by simp
  then show ?thesis
    by (simp only: drift_spec_zeros[OF T])
qed

section \<open>The channel groups\<close>

text \<open>
  Claim C5, as stated: the three enumerations are pairwise disjoint and none repeats a
  name. It fails: the toroidal coils \<open>CTor1\<close> .. \<open>CTor6\<close> are listed both as flux
  loops and as field coils.
\<close>

theorem sigs_not_disjoint:
  "''CTor1'' \<in> set FluxLoops \<inter> set BDots \<and>
   \<not> (set FluxLoops \<inter> set BDots = {} \<and> set FluxLoops \<inter> set Currents = {} \<and>
      set BDots \<inter> set Currents = {} \<and>
      distinct FluxLoops \<and> distinct BDots \<and> distinct Currents)"
  by (simp add: FluxLoops_def BDots_def)

text \<open>
  Claim C5, amended: the current channels are disjoint from the flux loops and from the
  field coils, the field-coil and the current enumerations repeat no name, and the flux
  loops and field coils share exactly the six toroidal coils \<open>CTor1\<close> .. \<open>CTor6\<close>.
\<close>

theorem sigs_groups:
  "set FluxLoops \<inter> set BDots =
     {''CTor1'', ''CTor2'', ''CTor3'', ''CTor4'', ''CTor5'', ''CTor6''} \<and>
   set FluxLoops \<inter> set Currents = {} \<and>
   set BDots \<inter> set Currents = {} \<and>
   distinct BDots \<and> distinct Currents"
proof -
  have fb: "set FluxLoops \<inter> set BDots =
      {''CTor1'', ''CTor2'', ''CTor3'', ''CTor4'', ''CTor5'', ''CTor6''}"
    unfolding FluxLoops_def BDots_def by (simp add: Int_insert_left)
  have fc: "set FluxLoops \<inter> set Currents = {}"
    unfolding FluxLoops_def Currents_def by simp
  have bc: "set BDots \<inter> set Currents = {}"
    unfolding BDots_def Currents_def by simp
  have db: "distinct BDots"
    unfolding BDots_def by simp
  have dc: "distinct Currents"
    unfolding Currents_def by simp
  from fb fc bc db dc show ?thesis by blast
qed

section \<open>Degenerate records\<close>

text \<open>
  Claim C2, as stated: on an empty record, a record with no sample in the baseline
  window, or a record with \<open>time[-1] == time[0]\<close>, \<open>CleanUp\<close> fails with a checked
  error instead of returning NaN values. It fails: a single-sample record has
  \<open>time[-1] == time[0]\<close> and no sample in the window, and \<open>CleanUp\<close> returns it with the
  value NaN, with and without integration.
\<close>

theorem CleanUp_single_sample_returns_NaN:
  "CleanUp (Wave (1 / 5000) [Fin 3]) False = Inr ([NaN], [0]) \<and>
   CleanUp (Wave (1 / 5000) [Fin 3]) True = Inr ([NaN], [0])"
proof -
  have w: "dRange_of (sigTime_of (1 / 5000) (length [Fin 3])) = []"
    by (simp add: dRange_of_def sigTime_of_def dStart_def)
  have t: "sigTime_of (1 / 5000) (length [Fin 3]) = [0]"
    by (simp add: sigTime_of_def)
  have "CleanUp (Wave (1 / 5000) [Fin 3]) b = Inr ([NaN], [0])" for b
    using CleanUp_empty_window[OF _ w, of b] unfolding t by simp
  then show ?thesis by simp
qed

text \<open>
  Claim C2, amended: \<open>CleanUp\<close> checks nothing. On the sentinel of a missing file it
  raises TypeError. On an empty array it returns the empty result when it does not
  integrate. On a non-empty array with no sample in the open window between 0 and 1 ms
  it returns normally, every value NaN; a record with \<open>time[-1] == time[0]\<close> is such
  a record.
\<close>

theorem CleanUp_degenerate:
  "CleanUp NotLoaded intFlag = Inl TypeError \<and>
   CleanUp (Wave dx []) False = Inr ([], []) \<and>
   (sig \<noteq> [] \<and> dRange_of (sigTime_of dx (length sig)) = [] \<longrightarrow>
      CleanUp (Wave dx sig) intFlag =
        Inr (replicate (length sig) NaN, sigTime_of dx (length sig))) \<and>
   (sig \<noteq> [] \<and> last (sigTime_of dx (length sig)) = sigTime_of dx (length sig) ! 0 \<longrightarrow>
      dRange_of (sigTime_of dx (length sig)) = [])"
proof -
  have a: "CleanUp (Wave dx []) False = Inr ([], [])"
    by (simp add: pre_drift_def sigTime_of_def drift_loop_def)
  have b: "CleanUp (Wave dx sig) intFlag =
        Inr (replicate (length sig) NaN, sigTime_of dx (length sig))"
    if "sig \<noteq> []" "dRange_of (sigTime_of dx (length sig)) = []"
    using CleanUp_empty_window[OF that] .
  have c: "dRange_of (sigTime_of dx (length sig)) = []"
    if "sig \<noteq> []" "last (sigTime_of dx (length sig)) = sigTime_of dx (length sig) ! 0"
    using degenerate_window_empty[OF that(2)] that(1) by simp
  from a b c show ?thesis by simp
qed

theorem CleanUp_degenerate_witness:
  "[Fin 7, Fin 9] \<noteq> [] \<and>
   last (sigTime_of 0 (length [Fin 7, Fin 9])) = sigTime_of 0 (length [Fin 7, Fin 9]) ! 0 \<and>
   dRange_of (sigTime_of 0 (length [Fin 7, Fin 9])) = [] \<and>
   CleanUp (Wave 0 [Fin 7, Fin 9]) True = Inr ([NaN, NaN], [0, 0])"
proof -
  have t: "sigTime_of 0 (length [Fin 7, Fin 9]) = [0, 0]"
    by (simp add: sigTime_of_def upt_rec)
  have l: "last (sigTime_of 0 (length [Fin 7, Fin 9])) = sigTime_of 0 (length [Fin 7, Fin 9]) ! 0"
    unfolding t by simp
  from CleanUp_degenerate[of True 0 "[Fin 7, Fin 9]"] l
  have w: "dRange_of (sigTime_of 0 (length [Fin 7, Fin 9])) = []" by blast
  with CleanUp_degenerate[of True 0 "[Fin 7, Fin 9]"]
  have "CleanUp (Wave 0 [Fin 7, Fin 9]) True =
      Inr (replicate (length [Fin 7, Fin 9]) NaN, sigTime_of 0 (length [Fin 7, Fin 9]))"
    by blast
  then have "CleanUp (Wave 0 [Fin 7, Fin 9]) True = Inr ([NaN, NaN], [0, 0])"
    unfolding t by (simp add: numeral_eq_Suc)
  with l w show ?thesis by simp
qed

section \<open>The baseline window\<close>






section \<open>The drift removal\<close>

lemma sigTime_4: "sigTime_of (1 / 2048) 4 = [0, 1 / 2048, 1 / 1024, 3 / 2048]"
  by (simp add: sigTime_of_def upt_rec[of _ "numeral _"] upt_rec[of _ "Suc _"] numeral_eq_Suc)

lemma pre_drift_inf_sample:
  "pre_drift (1 / 2048) [Fin 1, Fin 2, Fin 3, PInf] False =
     Inr [Fin (- (3 / 2)), Fin (- (1 / 2)), Fin (1 / 2), PInf]"
proof -
  have w: "dRange_of (sigTime_of (1 / 2048) 4) = [1, 2]"
    unfolding sigTime_4 by (simp add: dRange_of_def dStart_def dEnd_def upt_rec)
  have m: "np_mean [Fin 2, Fin 3] = Fin (5 / 2)"
    by (simp add: np_mean_def)
  have l: "length [Fin 1, Fin 2, Fin 3, PInf] = 4"
    by simp
  show ?thesis
    unfolding pre_drift_def Let_def l w by (simp add: m fsub_def)
qed

lemma drift_loop_inf_sample:
  "drift_loop [0, 1 / 2048, 1 / 1024, 3 / 2048] [Fin (- (3 / 2)), Fin (- (1 / 2)), Fin (1 / 2), PInf] =
     [NaN, NaN, NaN, NaN]"
  by (simp add: drift_loop_def drift_step_def fsub_def upt_rec)

lemma drift_spec_inf_sample:
  "drift_spec [0, 1 / 2048, 1 / 1024, 3 / 2048] [Fin (- (3 / 2)), Fin (- (1 / 2)), Fin (1 / 2), PInf] =
     [NaN, NInf, NInf, NaN]"
  by (simp add: drift_spec_def Let_def fsub_def upt_rec)

text \<open>
  Claim C10, as stated: for every input of at least two samples with a positive spacing
  the loop of \<open>CleanUp\<close>, which reads \<open>offSig[0]\<close> and \<open>offSig[-1]\<close> from the array it
  is writing, returns what the formula returns with both end points fixed before the
  loop. It fails on a wave that ends in an infinite sample: for the samples 1, 2, 3, inf
  at a spacing of 1/2048 the array that reaches the loop is -1.5, -0.5, 0.5, inf; the
  first pass computes \<open>inf * 0\<close>, which is NaN, and writes it to \<open>offSig[0]\<close>, so every
  later pass reads a NaN slope and the loop returns four NaN, where the formula returns
  NaN, -inf, -inf, NaN.
\<close>

theorem drift_loop_differs_on_inf:
  "pre_drift (1 / 2048) [Fin 1, Fin 2, Fin 3, PInf] False =
     Inr [Fin (- (3 / 2)), Fin (- (1 / 2)), Fin (1 / 2), PInf] \<and>
   CleanUp (Wave (1 / 2048) [Fin 1, Fin 2, Fin 3, PInf]) False =
     Inr ([NaN, NaN, NaN, NaN], [0, 1 / 2048, 1 / 1024, 3 / 2048]) \<and>
   drift_spec [0, 1 / 2048, 1 / 1024, 3 / 2048]
       [Fin (- (3 / 2)), Fin (- (1 / 2)), Fin (1 / 2), PInf] =
     [NaN, NInf, NInf, NaN] \<and>
   drift_loop [0, 1 / 2048, 1 / 1024, 3 / 2048]
       [Fin (- (3 / 2)), Fin (- (1 / 2)), Fin (1 / 2), PInf] \<noteq>
     drift_spec [0, 1 / 2048, 1 / 1024, 3 / 2048]
       [Fin (- (3 / 2)), Fin (- (1 / 2)), Fin (1 / 2), PInf]"
proof -
  have c: "CleanUp (Wave (1 / 2048) [Fin 1, Fin 2, Fin 3, PInf]) False =
     Inr ([NaN, NaN, NaN, NaN], [0, 1 / 2048, 1 / 1024, 3 / 2048])"
  proof -
    have l: "length [Fin 1, Fin 2, Fin 3, PInf] = 4"
      by simp
    show ?thesis
      unfolding CleanUp.simps pre_drift_inf_sample l sigTime_4 sum.case Let_def
        drift_loop_inf_sample ..
  qed
  from c pre_drift_inf_sample show ?thesis
    unfolding drift_loop_inf_sample drift_spec_inf_sample by simp
qed

text \<open>
  Claim C10, amended: the loop of \<open>CleanUp\<close> returns what the formula with the end
  points fixed before the loop returns on every array whose difference
  \<open>offSig[-1] - offSig[0]\<close>, as it stands before the loop, is finite or NaN, for a time
  array that starts at 0 and does not end there; so it does in \<open>CleanUp\<close> on every wave
  of at least two samples with a positive spacing whose array reaches the loop with
  such a difference. Over exact arithmetic (no rounding, no overflow) every wave of at
  least two finite samples with a positive spacing is one of these, and \<open>CleanUp\<close>
  returns on it.
\<close>

theorem drift_loop_refines_drift_spec:
  "(length t = length off \<and> t ! 0 = 0 \<and> last t - t ! 0 \<noteq> 0 \<and>
    finite_or_nan (fsub (last off) (off ! 0)) \<longrightarrow>
      drift_loop t off = drift_spec t off) \<and>
   (2 \<le> length sig \<and> 0 < dx \<and> pre_drift dx sig intFlag = Inr offSig \<and>
    finite_or_nan (fsub (last offSig) (offSig ! 0)) \<longrightarrow>
      drift_loop (sigTime_of dx (length sig)) offSig =
        drift_spec (sigTime_of dx (length sig)) offSig \<and>
      CleanUp (Wave dx sig) intFlag =
        Inr (drift_spec (sigTime_of dx (length sig)) offSig, sigTime_of dx (length sig))) \<and>
   (2 \<le> length rs \<and> 0 < dx \<longrightarrow>
      (\<exists>offSig'. pre_drift dx (map Fin rs) intFlag = Inr offSig' \<and>
         finite_or_nan (fsub (last offSig') (offSig' ! 0)) \<and>
         CleanUp (Wave dx (map Fin rs)) intFlag =
           Inr (drift_spec (sigTime_of dx (length rs)) offSig', sigTime_of dx (length rs))))"
proof -
  have a: "drift_loop t off = drift_spec t off"
    if "length t = length off" "t ! 0 = 0" "last t - t ! 0 \<noteq> 0"
      "finite_or_nan (fsub (last off) (off ! 0))"
    using drift_loop_eq_spec[OF that] .
  have b: "drift_loop (sigTime_of dx (length sig)) offSig =
        drift_spec (sigTime_of dx (length sig)) offSig \<and>
      CleanUp (Wave dx sig) intFlag =
        Inr (drift_spec (sigTime_of dx (length sig)) offSig, sigTime_of dx (length sig))"
    if "2 \<le> length sig" "0 < dx" "pre_drift dx sig intFlag = Inr offSig"
      "finite_or_nan (fsub (last offSig) (offSig ! 0))"
    using CleanUp_slope[OF that] .
  have c: "\<exists>offSig'. pre_drift dx (map Fin rs) intFlag = Inr offSig' \<and>
         finite_or_nan (fsub (last offSig') (offSig' ! 0)) \<and>
         CleanUp (Wave dx (map Fin rs)) intFlag =
           Inr (drift_spec (sigTime_of dx (length rs)) offSig', sigTime_of dx (length rs))"
    if n: "2 \<le> length rs" and dx: "0 < dx"
  proof -
    from n have ne: "rs \<noteq> []" by auto
    from pre_drift_props[OF ne, of dx intFlag] obtain o' where
      o': "pre_drift dx (map Fin rs) intFlag = Inr o'" "length o' = length rs"
        "list_all finite_or_nan o'"
      by blast
    from n o'(2) have pos: "0 < length o'" by linarith
    then have one: "o' \<noteq> []" by auto
    have f0: "finite_or_nan (o' ! 0)"
      using o'(3) pos by (simp add: list_all_length)
    have fl: "finite_or_nan (last o')"
      using o'(3) one by (simp add: list_all_iff)
    have fd: "finite_or_nan (fsub (last o') (o' ! 0))"
      using finite_or_nan_fsub[OF fl f0] .
    have n': "2 \<le> length (map Fin rs)" using n by simp
    from CleanUp_slope[OF n' dx o'(1) fd] o'(1) fd show ?thesis
      by auto
  qed
  from a b c show ?thesis by blast
qed

theorem drift_loop_refines_drift_spec_witness:
  "length [0, 1 :: real] = length [Fin 1, Fin 3] \<and> [0, 1 :: real] ! 0 = 0 \<and>
   last [0, 1 :: real] - [0, 1] ! 0 \<noteq> 0 \<and>
   finite_or_nan (fsub (last [Fin 1, Fin 3]) ([Fin 1, Fin 3] ! 0)) \<and>
   drift_loop [0, 1] [Fin 1, Fin 3] = drift_spec [0, 1] [Fin 1, Fin 3] \<and>
   2 \<le> length [Fin 1, Fin 2, Fin 3, Fin 7] \<and> (0 :: real) < 1 / 2048 \<and>
   pre_drift (1 / 2048) [Fin 1, Fin 2, Fin 3, Fin 7] False =
     Inr [Fin (- (3 / 2)), Fin (- (1 / 2)), Fin (1 / 2), Fin (9 / 2)] \<and>
   finite_or_nan (fsub (last [Fin (- (3 / 2)), Fin (- (1 / 2)), Fin (1 / 2), Fin (9 / 2)])
                       ([Fin (- (3 / 2)), Fin (- (1 / 2)), Fin (1 / 2), Fin (9 / 2)] ! 0)) \<and>
   CleanUp (Wave (1 / 2048) [Fin 1, Fin 2, Fin 3, Fin 7]) False =
     Inr (drift_spec (sigTime_of (1 / 2048) 4)
            [Fin (- (3 / 2)), Fin (- (1 / 2)), Fin (1 / 2), Fin (9 / 2)],
          sigTime_of (1 / 2048) 4) \<and>
   2 \<le> length [1, 2, 3, 7 :: real] \<and>
   (\<exists>offSig'. pre_drift (1 / 2048) (map Fin [1, 2, 3, 7]) True = Inr offSig' \<and>
      finite_or_nan (fsub (last offSig') (offSig' ! 0)) \<and>
      CleanUp (Wave (1 / 2048) (map Fin [1, 2, 3, 7])) True =
        Inr (drift_spec (sigTime_of (1 / 2048) (length [1, 2, 3, 7 :: real])) offSig',
             sigTime_of (1 / 2048) (length [1, 2, 3, 7 :: real])))"
proof -
  have h1: "length [0, 1 :: real] = length [Fin 1, Fin 3] \<and> [0, 1 :: real] ! 0 = 0 \<and>
      last [0, 1 :: real] - [0, 1] ! 0 \<noteq> 0 \<and>
      finite_or_nan (fsub (last [Fin 1, Fin 3]) ([Fin 1, Fin 3] ! 0))"
    by (simp add: fsub_def)
  have w: "dRange_of (sigTime_of (1 / 2048) 4) = [1, 2]"
    unfolding sigTime_4 by (simp add: dRange_of_def dStart_def dEnd_def upt_rec)
  have m: "np_mean [Fin 2, Fin 3] = Fin (5 / 2)"
    by (simp add: np_mean_def)
  have l: "length [Fin 1, Fin 2, Fin 3, Fin 7] = 4"
    by simp
  have pd: "pre_drift (1 / 2048) [Fin 1, Fin 2, Fin 3, Fin 7] False =
     Inr [Fin (- (3 / 2)), Fin (- (1 / 2)), Fin (1 / 2), Fin (9 / 2)]"
    unfolding pre_drift_def Let_def l w by (simp add: m fsub_def)
  have h2: "2 \<le> length [Fin 1, Fin 2, Fin 3, Fin 7] \<and> (0 :: real) < 1 / 2048 \<and>
      finite_or_nan (fsub (last [Fin (- (3 / 2)), Fin (- (1 / 2)), Fin (1 / 2), Fin (9 / 2)])
                       ([Fin (- (3 / 2)), Fin (- (1 / 2)), Fin (1 / 2), Fin (9 / 2)] ! 0))"
    by (simp add: fsub_def)
  have h3: "2 \<le> length [1, 2, 3, 7 :: real]"
    by simp
  note inst = drift_loop_refines_drift_spec[of "[0, 1]" "[Fin 1, Fin 3]"
      "[Fin 1, Fin 2, Fin 3, Fin 7]" "1 / 2048" False
      "[Fin (- (3 / 2)), Fin (- (1 / 2)), Fin (1 / 2), Fin (9 / 2)]" "[1, 2, 3, 7]"]
    drift_loop_refines_drift_spec[of "[0, 1]" "[Fin 1, Fin 3]"
      "[Fin 1, Fin 2, Fin 3, Fin 7]" "1 / 2048" True
      "[Fin (- (3 / 2)), Fin (- (1 / 2)), Fin (1 / 2), Fin (9 / 2)]" "[1, 2, 3, 7]"]
  from inst(1) h1 have a: "drift_loop [0, 1] [Fin 1, Fin 3] = drift_spec [0, 1] [Fin 1, Fin 3]"
    by blast
  from inst(1) h2 pd have b: "CleanUp (Wave (1 / 2048) [Fin 1, Fin 2, Fin 3, Fin 7]) False =
     Inr (drift_spec (sigTime_of (1 / 2048) 4)
            [Fin (- (3 / 2)), Fin (- (1 / 2)), Fin (1 / 2), Fin (9 / 2)],
          sigTime_of (1 / 2048) 4)"
    unfolding l by blast
  from inst(2) h2 h3 have c: "\<exists>offSig'. pre_drift (1 / 2048) (map Fin [1, 2, 3, 7]) True = Inr offSig' \<and>
      finite_or_nan (fsub (last offSig') (offSig' ! 0)) \<and>
      CleanUp (Wave (1 / 2048) (map Fin [1, 2, 3, 7])) True =
        Inr (drift_spec (sigTime_of (1 / 2048) (length [1, 2, 3, 7 :: real])) offSig',
             sigTime_of (1 / 2048) (length [1, 2, 3, 7 :: real]))"
    by blast
  from h1 h2 h3 pd a b c show ?thesis by blast
qed

text \<open>
  Claim C8, as stated: for every record of at least two samples with a positive spacing
  and a linear drift added, the conditioned value at the first sample equals the one at
  the last sample. It fails where no sample lies in the baseline window: the zero record
  of two samples one second apart, with the drift \<open>1 * t + 0\<close> added, is \<open>[0, 1]\<close>;
  both values come back NaN, and NaN equals nothing.
\<close>

theorem drift_ends_NaN:
  "CleanUp (Wave 1 [Fin 0, Fin 1]) False = Inr ([NaN, NaN], [0, 1]) \<and>
   CleanUp (Wave 1 [Fin 0, Fin 1]) True = Inr ([NaN, NaN], [0, 1]) \<and>
   \<not> feq ([NaN, NaN] ! 0) (last [NaN, NaN])"
proof -
  have w: "dRange_of (sigTime_of 1 (length [Fin 0, Fin 1])) = []"
    by (simp add: dRange_of_def sigTime_of_def dStart_def dEnd_def)
  have t: "sigTime_of 1 (length [Fin 0, Fin 1]) = [0, 1]"
    by (simp add: sigTime_of_def upt_rec)
  have "CleanUp (Wave 1 [Fin 0, Fin 1]) b = Inr ([NaN, NaN], [0, 1])" for b
    using CleanUp_empty_window[OF _ w, of b] unfolding t by (simp add: numeral_eq_Suc)
  then show ?thesis by simp
qed

text \<open>
  Claim C8, amended: for every record of at least two samples with a positive spacing
  below 0.001 seconds (so that a sample lies in the baseline window) and a linear drift
  \<open>m * t + c\<close> added, \<open>CleanUp\<close> returns, with and without integration, and the
  value at the first sample is a finite number equal to the value at the last sample,
  for every \<open>m\<close> and \<open>c\<close>.
\<close>

theorem drift_removed_ends_match:
  assumes "2 \<le> length s" "0 < dx" "dx < dEnd"
    and "sig = map (\<lambda>i. s ! i + (m * (dx * real i) + c)) [0..<length s]"
  shows "\<exists>v t a. CleanUp (Wave dx (map Fin sig)) intFlag = Inr (v, t) \<and>
           v ! 0 = Fin a \<and> last v = Fin a \<and> feq (v ! 0) (last v)"
proof -
  from assms have n: "2 \<le> length sig" by simp
  from CleanUp_via_spec[OF n assms(2), of intFlag] dRange_nonempty[OF n assms(2,3)]
  obtain off where off: "length off = length sig" "list_all is_Fin off"
    "CleanUp (Wave dx (map Fin sig)) intFlag =
       Inr (drift_spec (sigTime_of dx (length sig)) off, sigTime_of dx (length sig))"
    by blast
  from drift_spec_ends[OF n assms(2) off(1,2)] obtain a where
    "drift_spec (sigTime_of dx (length sig)) off ! 0 = Fin a"
    "last (drift_spec (sigTime_of dx (length sig)) off) = Fin a"
    by blast
  with off(3) show ?thesis by simp
qed

theorem drift_removed_ends_match_witness:
  "2 \<le> length [4, 1, 3::real] \<and> (0::real) < 1 / 5000 \<and> (1 / 5000 :: real) < dEnd \<and>
   (\<exists>v t a.
      CleanUp (Wave (1 / 5000)
         (map Fin (map (\<lambda>i. [4, 1, 3] ! i + (7 * (1 / 5000 * real i) + 2))
                     [0..<length [4, 1, 3::real]])))
        True = Inr (v, t) \<and>
      v ! 0 = Fin a \<and> last v = Fin a \<and> feq (v ! 0) (last v))"
proof -
  have h: "2 \<le> length [4, 1, 3::real]" "(0::real) < 1 / 5000" "(1 / 5000 :: real) < dEnd"
    by (simp_all add: dEnd_def)
  from drift_removed_ends_match[OF h refl, of 7 2 True] h show ?thesis
    by blast
qed

section \<open>The shot folder\<close>

lemma str_int_123: "str_int 123 = ''123''"
  by (simp add: str_int_def digit_chars_def)

text \<open>
  Claim C7: every shot number of fewer than six digits is padded with zeros to six
  digits before the path is cut from it. The code pads only the strings of four and of
  five characters. Shot 123 keeps its three characters, and its folders are cut from
  \<open>123\<close>, not from \<open>000123\<close>.
\<close>

theorem getFolderPath_shot_123:
  "shotstr_of 123 = ''123'' \<and>
   length (shotstr_of 123) = 3 \<and>
   getFolderPath \<lparr>machine = ''Linux'', waves = Map.empty, text_files = Map.empty\<rparr> (init 123) =
     Inr ((init 123)\<lparr>DataPath := ''/mnt/Pegasus_Data_Archive/p3data/120000/300/T123''\<rparr>)"
proof -
  have s: "shotstr_of 123 = ''123''"
    by (simp add: shotstr_of_def str_int_123)
  have "getFolderPath \<lparr>machine = ''Linux'', waves = Map.empty, text_files = Map.empty\<rparr> (init 123) =
     Inr ((init 123)\<lparr>DataPath := ''/mnt/Pegasus_Data_Archive/p3data/120000/300/T123''\<rparr>)"
    by (simp add: getFolderPath_def bind_def getitem_def PathDict_def init_def s path_join_def)
  with s show ?thesis by simp
qed

section \<open>The calibration file\<close>

lemma slice_step_block:
  assumes "length blk = 7" "k < 7"
  shows "slice_step blk k 7 = [blk ! k]"
proof -
  from assms have h: "(length blk - k + (7 - 1)) div 7 = 1" by simp
  show ?thesis unfolding slice_step_def h by simp
qed

lemma py_float_2_5: "py_float ''2.5'' = Inr (Fin 2.5)"
proof -
  have u: "filter (\<lambda>ch. ch \<noteq> CHR ''_'') ''2.5'' = ''2.5''"
    by simp
  have ok: "underscores_ok CHR '' '' ''2.5''"
    by simp
  have d: "to_double (5 / 2) = Fin (5 / 2)"
    by (simp add: to_double_def)
  have b: "rev (dropWhile py_isspace (rev (dropWhile py_isspace ''2.5''))) = ''2.5''"
    by (simp add: py_isspace_def)
  have sg: "split_sign ''2.5'' = (False, ''2.5'')"
    by (simp add: split_sign_def)
  show ?thesis
    unfolding py_float_def b Let_def sg prod.case u
    using ok d
    by (simp add: is_digit_def digit_chars_def nat_of_digits_def digit_val_def py_lower_def
        split_sign_def)
qed

lemma LoadCalData_block:
  assumes hdr: "length hdr = 64"
    and conf: "text_files ev (path_join (machine ev) (DataPath self) ''DAS.conf'') =
      Some (hdr @ [''[CFL01]'' @ nl, x1, x2, ''V 3.14'' @ nl, ''scale 2.5'' @ nl, x3, x4])"
    and nl: "nl = [] \<or> nl = [CHR 0x0A]"
  shows "LoadCalData ev self =
    Inr (self\<lparr>calFile := (calFile self)(''CFL01'' \<mapsto> (Fin 2.5, ''3.14''))\<rparr>)"
proof -
  define name where "name = ''[CFL01]'' @ nl"
  define uline where "uline = ''V 3.14'' @ nl"
  define vline where "vline = ''scale 2.5'' @ nl"
  let ?blk = "[name, x1, x2, uline, vline, x3, x4]"
  have conf': "text_files ev (path_join (machine ev) (DataPath self) ''DAS.conf'') =
      Some (hdr @ ?blk)"
    using conf by (simp add: name_def uline_def vline_def)
  have d: "drop 64 (hdr @ ?blk) = ?blk"
    using hdr by simp
  have len: "length ?blk = 7" by simp
  have names: "slice_step ?blk 0 7 = [name]"
    and vals: "slice_step ?blk 4 7 = [vline]"
    and units: "slice_step ?blk 3 7 = [uline]"
    using slice_step_block[OF len, of 0] slice_step_block[OF len, of 4]
      slice_step_block[OF len, of 3] by simp_all
  have v: "py_split vline = [''scale'', ''2.5'']"
    using nl by (auto simp: vline_def py_split_def py_isspace_def)
  have u: "py_split uline = [''V'', ''3.14'']"
    using nl by (auto simp: uline_def py_split_def py_isspace_def)
  have k: "py_strip (''[]'' @ [CHR 0x0A]) name = ''CFL01''"
    using nl by (auto simp: name_def py_strip_def)
  have entry: "cal_entry [vline] [uline] 0 = Inr (Fin 2.5, ''3.14'')"
    by (simp add: cal_entry_def bind_def item_def last_item_def v u py_float_2_5)
  show ?thesis
    unfolding LoadCalData_def conf' option.case Let_def d names vals units
    using k by (simp add: entry bind_def)
qed


text \<open>
  Claim C4, as stated: after the 64 header lines, the block
  \<open>[CFL01]\<close>, x, x, \<open>V 3.14\<close>, \<open>scale 2.5\<close>, x, x is read as the entry
  \<open>CFL01: (2.5, V)\<close>. It fails: the unit is the last token of the line at offset 3,
  which is \<open>3.14\<close>.
\<close>

theorem LoadCalData_unit_is_last_token:
  "LoadCalData
     \<lparr>machine = ''Linux'', waves = Map.empty,
      text_files = [''/data/DAS.conf'' \<mapsto>
        replicate 64 [] @ [''[CFL01]'', [], [], ''V 3.14'', ''scale 2.5'', [], []]]\<rparr>
     ((init 0)\<lparr>DataPath := ''/data''\<rparr>) =
   Inr ((init 0)\<lparr>DataPath := ''/data'', calFile := [''CFL01'' \<mapsto> (Fin 2.5, ''3.14'')]\<rparr>) \<and>
   [''CFL01'' \<mapsto> (Fin 2.5, ''3.14'')] \<noteq> [''CFL01'' \<mapsto> (Fin 2.5, ''V'')]"
proof -
  let ?ev = "\<lparr>machine = ''Linux'', waves = Map.empty,
      text_files = [''/data/DAS.conf'' \<mapsto>
        replicate 64 [] @ [''[CFL01]'', [], [], ''V 3.14'', ''scale 2.5'', [], []]]\<rparr>"
  let ?self = "(init 0)\<lparr>DataPath := ''/data''\<rparr>"
  have conf: "text_files ?ev (path_join (machine ?ev) (DataPath ?self) ''DAS.conf'') =
      Some (replicate 64 [] @ [''[CFL01]'' @ [], [], [], ''V 3.14'' @ [], ''scale 2.5'' @ [], [], []])"
    by (simp add: path_join_def)
  have "LoadCalData ?ev ?self =
      Inr (?self\<lparr>calFile := (calFile ?self)(''CFL01'' \<mapsto> (Fin 2.5, ''3.14''))\<rparr>)"
    by (rule LoadCalData_block[OF _ conf]) simp_all
  then have a: "LoadCalData ?ev ?self =
      Inr ((init 0)\<lparr>DataPath := ''/data'', calFile := [''CFL01'' \<mapsto> (Fin 2.5, ''3.14'')]\<rparr>)"
    by (simp add: init_def)
  have b: "[''CFL01'' \<mapsto> (Fin 2.5, ''3.14'')] \<noteq> [''CFL01'' \<mapsto> (Fin 2.5, ''V'')]"
  proof
    assume "[''CFL01'' \<mapsto> (Fin 2.5, ''3.14'')] = [''CFL01'' \<mapsto> (Fin 2.5, ''V'')]"
    then have "(Fin 2.5, ''3.14'') = (Fin 2.5, ''V'')"
      by (rule map_upd_eqD1)
    then show False by simp
  qed
  from a b show ?thesis by simp
qed

text \<open>
  Claim C4, amended: after any 64 header lines, the block
  \<open>[CFL01]\<close>, x, x, \<open>V 3.14\<close>, \<open>scale 2.5\<close>, x, x (each of the three lines read with
  or without its newline) is read into an empty store as exactly the entry
  \<open>CFL01: (2.5, 3.14)\<close>: the scale factor is 2.5 and the unit is the last token of the
  line at offset 3.
\<close>

theorem LoadCalData_CFL01_block:
  assumes "length hdr = 64"
    and "nl = [] \<or> nl = [CHR 0x0A]"
    and "text_files ev (path_join (machine ev) (DataPath self) ''DAS.conf'') =
      Some (hdr @ [''[CFL01]'' @ nl, x1, x2, ''V 3.14'' @ nl, ''scale 2.5'' @ nl, x3, x4])"
    and "calFile self = Map.empty"
  shows "\<exists>s'. LoadCalData ev self = Inr s' \<and> calFile s' = [''CFL01'' \<mapsto> (Fin 2.5, ''3.14'')]"
  using LoadCalData_block[OF assms(1) assms(3) assms(2)] assms(4) by simp

theorem LoadCalData_CFL01_block_witness:
  "length (replicate 64 ''# header'') = 64 \<and>
   calFile ((init 0)\<lparr>DataPath := ''/data''\<rparr>) = Map.empty \<and>
   (\<exists>s'. LoadCalData
       \<lparr>machine = ''Linux'', waves = Map.empty,
        text_files = [''/data/DAS.conf'' \<mapsto>
          replicate 64 ''# header'' @
          [''[CFL01]'' @ [CHR 0x0A], ''a'', ''b'', ''V 3.14'' @ [CHR 0x0A],
           ''scale 2.5'' @ [CHR 0x0A], ''c'', ''d'']]\<rparr>
       ((init 0)\<lparr>DataPath := ''/data''\<rparr>) = Inr s' \<and>
     calFile s' = [''CFL01'' \<mapsto> (Fin 2.5, ''3.14'')])"
proof -
  let ?ev = "\<lparr>machine = ''Linux'', waves = Map.empty,
        text_files = [''/data/DAS.conf'' \<mapsto>
          replicate 64 ''# header'' @
          [''[CFL01]'' @ [CHR 0x0A], ''a'', ''b'', ''V 3.14'' @ [CHR 0x0A],
           ''scale 2.5'' @ [CHR 0x0A], ''c'', ''d'']]\<rparr>"
  let ?self = "(init 0)\<lparr>DataPath := ''/data''\<rparr>"
  have h1: "length (replicate 64 ''# header'') = 64" by simp
  have h2: "[CHR 0x0A] = [] \<or> [CHR 0x0A] = [CHR 0x0A]" by simp
  have h3: "text_files ?ev (path_join (machine ?ev) (DataPath ?self) ''DAS.conf'') =
      Some (replicate 64 ''# header'' @
          [''[CFL01]'' @ [CHR 0x0A], ''a'', ''b'', ''V 3.14'' @ [CHR 0x0A],
           ''scale 2.5'' @ [CHR 0x0A], ''c'', ''d''])"
    by (simp add: path_join_def)
  have h4: "calFile ?self = Map.empty" by (simp add: init_def)
  from LoadCalData_CFL01_block[OF h1 h2 h3 h4] h1 h4 show ?thesis by blast
qed

section \<open>Facts about the loops and the loaders\<close>

lemma ProcFL_loop_NotLoaded:
  "ProcFL_loop ((sig, NotLoaded) # rest) self =
     ProcFL_loop rest (store GFluxLoops sig (([], []), [''no data for '' @ sig]) self)"
  by (simp add: bind_def except_TypeError_def)

lemma ProcBdot_loop_NotLoaded:
  "ProcBdot_loop ((sig, NotLoaded) # rest) self =
     ProcBdot_loop rest (store GBDots sig (([], []), [''no data for '' @ sig]) self)"
  by (simp add: bind_def except_TypeError_def)

lemma ProcFL_loop_no_cal:
  "CleanUp rawSig True = Inr r \<Longrightarrow> calFile self sig = None \<Longrightarrow>
   ProcFL_loop ((sig, rawSig) # rest) self = Inl KeyError"
  by (cases r) (simp add: bind_def except_TypeError_def getitem_def)

lemma ProcBdot_loop_no_cal:
  "CleanUp rawSig True = Inr r \<Longrightarrow> calFile self sig = None \<Longrightarrow>
   ProcBdot_loop ((sig, rawSig) # rest) self = Inl KeyError"
  by (cases r; cases "BdotNA sig") (simp_all add: bind_def except_TypeError_def getitem_def)

lemma ProcBdot_loop_no_NA:
  "CleanUp rawSig True = Inr r \<Longrightarrow> BdotNA sig = None \<Longrightarrow>
   ProcBdot_loop ((sig, rawSig) # rest) self = Inl KeyError"
  by (cases r) (simp add: bind_def except_TypeError_def getitem_def)

lemma ProcBdot_loop_ok:
  "CleanUp rawSig True = Inr (v, t) \<Longrightarrow> BdotNA sig = Some na \<Longrightarrow> calFile self sig = Some cal \<Longrightarrow>
   ProcBdot_loop ((sig, rawSig) # rest) self =
     ProcBdot_loop rest (store GBDots sig ((scale_by (fmul (Fin na) (fst cal)) v, t), []) self)"
  by (simp add: bind_def except_TypeError_def getitem_def)

lemma dom_BdotNA: "dom BdotNA = set BDots"
proof -
  have "map fst BdotDict = BDots"
    by (simp add: BdotDict_def BDots_def)
  then show ?thesis
    by (simp add: BdotNA_def dom_map_of_conv_image_fst flip: set_map)
qed

lemma CalcIp_NotLoaded:
  "map_of (raw self GCurrents) ''PlasmaRogB'' = Some NotLoaded \<Longrightarrow> CalcIp self = Inl TypeError"
  by (simp add: CalcIp_def bind_def getitem_def)

lemma LoadRaw_sigs_fields:
  "DataPath (LoadRaw_sigs ev g xs self) = DataPath self \<and>
   calFile (LoadRaw_sigs ev g xs self) = calFile self \<and>
   calData (LoadRaw_sigs ev g xs self) = calData self \<and>
   shotnum (LoadRaw_sigs ev g xs self) = shotnum self"
  by (induction xs arbitrary: self) (simp_all add: case_prod_beta)

lemma LoadRaw_fields:
  "DataPath (LoadRaw ev self) = DataPath self \<and>
   calFile (LoadRaw ev self) = calFile self \<and>
   calData (LoadRaw ev self) = calData self \<and>
   shotnum (LoadRaw ev self) = shotnum self"
  by (simp add: LoadRaw_def LoadRaw_sigs_fields)

lemma raw_LoadRaw_sigs:
  "raw (LoadRaw_sigs ev g xs self) =
     (raw self)(g := fold (\<lambda>sig d. dict_set d sig (fst (IgorLoad ev sig (DataPath self)))) xs (raw self g))"
  by (induction xs arbitrary: self) (simp_all add: case_prod_beta)

lemma raw_LoadRaw:
  "raw (LoadRaw ev self) g =
     fold (\<lambda>sig d. dict_set d sig (fst (IgorLoad ev sig (DataPath self)))) (sigs g) (raw self g)"
  by (cases g) (simp_all add: LoadRaw_def raw_LoadRaw_sigs LoadRaw_sigs_fields)

lemma fold_dict_set_head:
  "k \<notin> set xs \<Longrightarrow>
   \<exists>d''. fold (\<lambda>sig d. dict_set d sig (f sig)) xs ((k, v) # d') = (k, v) # d''"
  by (induction xs arbitrary: d') auto

lemma raw_LoadRaw_FluxLoops_head:
  assumes "raw self GFluxLoops = []"
  shows "\<exists>d. raw (LoadRaw ev self) GFluxLoops =
           (''CFL01'', fst (IgorLoad ev ''CFL01'' (DataPath self))) # d"
proof -
  let ?f = "\<lambda>sig. fst (IgorLoad ev sig (DataPath self))"
  have F: "sigs GFluxLoops = ''CFL01'' # tl FluxLoops"
    by (simp add: sigs_def FluxLoops_def)
  have nin: "''CFL01'' \<notin> set (tl FluxLoops)"
    by (simp add: FluxLoops_def)
  have "raw (LoadRaw ev self) GFluxLoops =
      fold (\<lambda>sig d. dict_set d sig (?f sig)) (tl FluxLoops) ((''CFL01'', ?f ''CFL01'') # [])"
    unfolding raw_LoadRaw F assms by simp
  with fold_dict_set_head[OF nin, of ?f "?f ''CFL01''" "[]"] show ?thesis
    by simp
qed

lemma raw_LoadRaw_PlasmaRogB:
  assumes "raw self GCurrents = []"
  shows "map_of (raw (LoadRaw ev self) GCurrents) ''PlasmaRogB'' =
           Some (fst (IgorLoad ev ''PlasmaRogB'' (DataPath self)))"
  by (simp add: raw_LoadRaw sigs_def Currents_def assms)

lemma LoadCal_loop_raw:
  "LoadCal_loop DiagNames CalVals CalUnits idx self = Inr s' \<Longrightarrow> raw s' = raw self"
proof (induction idx arbitrary: self)
  case Nil
  then show ?case by simp
next
  case (Cons i idx)
  then show ?case
    by (cases "cal_entry CalVals CalUnits i") (auto simp: bind_def)
qed

lemma LoadCalData_raw: "LoadCalData ev self = Inr s' \<Longrightarrow> raw s' = raw self"
  by (auto simp: LoadCalData_def Let_def split: option.splits dest: LoadCal_loop_raw)

lemma LoadCalData_header_only:
  assumes "text_files ev (path_join (machine ev) (DataPath self) ''DAS.conf'') = Some hdr"
    and "length hdr \<le> 64"
  shows "LoadCalData ev self = Inr self"
  using assms by (simp add: LoadCalData_def slice_step_def)

lemma CleanUp_returns:
  "2 \<le> length sig \<Longrightarrow> 0 < dx \<Longrightarrow> \<exists>r. CleanUp (Wave dx (map Fin sig)) intFlag = Inr r"
  using CleanUp_via_spec[of sig dx intFlag] by blast

lemma getFolderPath_Linux:
  "machine ev = ''Linux'' \<Longrightarrow>
   \<exists>p. getFolderPath ev self = Inr (self\<lparr>DataPath := p\<rparr>)"
  by (auto simp: getFolderPath_def bind_def getitem_def PathDict_def Let_def)

lemma getFolderPath_raw: "getFolderPath ev self = Inr s1 \<Longrightarrow> raw s1 = raw self"
  by (auto simp: getFolderPath_def bind_def getitem_def Let_def split: option.splits)

lemma IgorLoad_absent:
  "waves ev (path_join (machine ev) p (sig @ ''.ibw'')) = None \<Longrightarrow>
   IgorLoad ev sig p = (NotLoaded, [sig @ ''.ibw'' @ '' not loaded - file not found''])"
  by (simp add: IgorLoad_def)

section \<open>Fault isolation in the channel loops\<close>

text \<open>
  Claim C1, as stated: a flux-loop or field-coil channel with no entry in the calibration
  store gets the empty channel and a message, and the group is processed to its end. It
  fails: with every wave file present and a calibration file that holds no entry, the
  first flux loop is conditioned, its calibration lookup raises KeyError, no handler
  catches it and \<open>ProcFL\<close> ends there.
\<close>

theorem ProcFL_missing_calibration_aborts:
  "\<not> isl (bind (getFolderPath
              \<lparr>machine = ''Linux'', waves = (\<lambda>p. Some (1 / 5000, [Fin 1, Fin 2, Fin 4])),
               text_files = (\<lambda>p. Some (replicate 64 []))\<rparr> (init 109756))
            (\<lambda>s1. LoadCalData
              \<lparr>machine = ''Linux'', waves = (\<lambda>p. Some (1 / 5000, [Fin 1, Fin 2, Fin 4])),
               text_files = (\<lambda>p. Some (replicate 64 []))\<rparr>
              (LoadRaw
                \<lparr>machine = ''Linux'', waves = (\<lambda>p. Some (1 / 5000, [Fin 1, Fin 2, Fin 4])),
                 text_files = (\<lambda>p. Some (replicate 64 []))\<rparr> s1))) \<and>
   bind (getFolderPath
           \<lparr>machine = ''Linux'', waves = (\<lambda>p. Some (1 / 5000, [Fin 1, Fin 2, Fin 4])),
            text_files = (\<lambda>p. Some (replicate 64 []))\<rparr> (init 109756))
     (\<lambda>s1. bind (LoadCalData
              \<lparr>machine = ''Linux'', waves = (\<lambda>p. Some (1 / 5000, [Fin 1, Fin 2, Fin 4])),
               text_files = (\<lambda>p. Some (replicate 64 []))\<rparr>
              (LoadRaw
                \<lparr>machine = ''Linux'', waves = (\<lambda>p. Some (1 / 5000, [Fin 1, Fin 2, Fin 4])),
                 text_files = (\<lambda>p. Some (replicate 64 []))\<rparr> s1))
            ProcFL) = Inl KeyError"
proof -
  let ?ev = "\<lparr>machine = ''Linux'', waves = (\<lambda>p. Some (1 / 5000, [Fin 1, Fin 2, Fin 4])),
               text_files = (\<lambda>p. Some (replicate 64 []))\<rparr>"
  from getFolderPath_Linux[of ?ev "init 109756"] obtain p where
    g: "getFolderPath ?ev (init 109756) = Inr ((init 109756)\<lparr>DataPath := p\<rparr>)"
    by auto
  let ?s1 = "(init 109756)\<lparr>DataPath := p\<rparr>"
  let ?s2 = "LoadRaw ?ev ?s1"
  have c: "LoadCalData ?ev ?s2 = Inr ?s2"
    by (rule LoadCalData_header_only[of _ _ "replicate 64 []"]) simp_all
  have "raw ?s1 GFluxLoops = []"
    by (simp add: init_def)
  from raw_LoadRaw_FluxLoops_head[OF this, of ?ev] obtain d where
    "raw ?s2 GFluxLoops = (''CFL01'', fst (IgorLoad ?ev ''CFL01'' (DataPath ?s1))) # d"
    by blast
  then have r: "raw ?s2 GFluxLoops = (''CFL01'', Wave (1 / 5000) [Fin 1, Fin 2, Fin 4]) # d"
    by (simp add: IgorLoad_def)
  have cf: "calFile ?s2 ''CFL01'' = None"
    by (simp add: LoadRaw_fields init_def)
  from CleanUp_returns[of "[1, 2, 4]" "1 / 5000" True] obtain v where
    v: "CleanUp (Wave (1 / 5000) [Fin 1, Fin 2, Fin 4]) True = Inr v"
    by auto
  have "ProcFL ?s2 = Inl KeyError"
    unfolding ProcFL_def r by (rule ProcFL_loop_no_cal[OF v cf])
  with g c show ?thesis
    by (simp add: bind_def)
qed

text \<open>
  Claim C1, amended: a flux-loop or field-coil channel whose raw signal is the sentinel
  of a missing file gets the empty channel and the line \<open>no data for\<close> with its name,
  whether or not the calibration store has an entry for it, and the loop goes on with
  the remaining channels. A channel whose raw signal is conditioned without an error and
  that has no entry in the calibration store raises KeyError; neither loop catches it,
  so the group ends there.
\<close>

theorem missing_file_isolated_missing_calibration_not:
  "ProcFL_loop ((sig, NotLoaded) # rest) self =
     ProcFL_loop rest (store GFluxLoops sig (([], []), [''no data for '' @ sig]) self) \<and>
   ProcBdot_loop ((sig, NotLoaded) # rest) self =
     ProcBdot_loop rest (store GBDots sig (([], []), [''no data for '' @ sig]) self) \<and>
   ((\<exists>r. CleanUp rawSig True = Inr r) \<and> calFile self sig = None \<longrightarrow>
      ProcFL_loop ((sig, rawSig) # rest) self = Inl KeyError \<and>
      ProcBdot_loop ((sig, rawSig) # rest) self = Inl KeyError)"
  using ProcFL_loop_NotLoaded[of sig rest self] ProcBdot_loop_NotLoaded[of sig rest self]
    ProcFL_loop_no_cal[of rawSig _ self sig rest] ProcBdot_loop_no_cal[of rawSig _ self sig rest]
  by blast

theorem missing_file_isolated_missing_calibration_not_witness:
  "(\<exists>r. CleanUp (Wave (1 / 5000) [Fin 1, Fin 2, Fin 4]) True = Inr r) \<and>
   calFile (init 109756) ''PDX01'' = None \<and>
   ProcFL_loop [(''PDX01'', Wave (1 / 5000) [Fin 1, Fin 2, Fin 4]), (''PDX02'', NotLoaded)] (init 109756) =
     Inl KeyError \<and>
   ProcBdot_loop [(''PDX01'', Wave (1 / 5000) [Fin 1, Fin 2, Fin 4]), (''PDX02'', NotLoaded)] (init 109756) =
     Inl KeyError"
proof -
  have r: "\<exists>r. CleanUp (Wave (1 / 5000) [Fin 1, Fin 2, Fin 4]) True = Inr r"
    using CleanUp_returns[of "[1, 2, 4]" "1 / 5000" True] by simp
  have c: "calFile (init 109756) ''PDX01'' = None"
    by (simp add: init_def)
  from missing_file_isolated_missing_calibration_not
    [of "''PDX01''" "[(''PDX02'', NotLoaded)]" "init 109756" "Wave (1 / 5000) [Fin 1, Fin 2, Fin 4]"] r c
  show ?thesis by blast
qed

section \<open>A missing plasma-current file\<close>

text \<open>
  Claim C6: a missing wave file is not fatal for any channel, \<open>PlasmaRogB\<close> included.
  \<open>IgorLoad\<close> does return the sentinel, and \<open>ProcFL\<close> and \<open>ProcBdot\<close> catch the
  TypeError that \<open>CleanUp\<close> raises on it; \<open>CalcIp\<close> has no handler. Whenever the file
  \<open>PlasmaRogB.ibw\<close> is missing and the calibration file loads, \<open>main\<close> ends with that
  TypeError in \<open>CalcIp\<close>, before any flux loop or field coil is processed.
\<close>

theorem main_missing_PlasmaRogB:
  assumes "getFolderPath ev (init shot) = Inr s1"
    and "waves ev (path_join (machine ev) (DataPath s1) ''PlasmaRogB.ibw'') = None"
    and "LoadCalData ev (LoadRaw ev s1) = Inr s3"
  shows "IgorLoad ev ''PlasmaRogB'' (DataPath s1) =
           (NotLoaded, [''PlasmaRogB.ibw not loaded - file not found'']) \<and>
         CalcIp s3 = Inl TypeError \<and> main ev shot = Inl TypeError"
proof -
  have i: "IgorLoad ev ''PlasmaRogB'' (DataPath s1) =
           (NotLoaded, [''PlasmaRogB.ibw not loaded - file not found''])"
    using IgorLoad_absent[of ev "DataPath s1" "''PlasmaRogB''"] assms(2) by simp
  have "raw s1 GCurrents = []"
    using getFolderPath_raw[OF assms(1)] by (simp add: init_def)
  from raw_LoadRaw_PlasmaRogB[OF this, of ev] i
  have "map_of (raw (LoadRaw ev s1) GCurrents) ''PlasmaRogB'' = Some NotLoaded"
    by simp
  then have "map_of (raw s3 GCurrents) ''PlasmaRogB'' = Some NotLoaded"
    using LoadCalData_raw[OF assms(3)] by simp
  then have c: "CalcIp s3 = Inl TypeError"
    by (rule CalcIp_NotLoaded)
  have "main ev shot = Inl TypeError"
    by (simp add: main_def assms(1) assms(3) c bind_def)
  with i c show ?thesis by simp
qed

theorem main_missing_PlasmaRogB_witness:
  "getFolderPath
     \<lparr>machine = ''Linux'', waves = Map.empty, text_files = (\<lambda>p. Some (replicate 64 []))\<rparr>
     (init 109756) =
     Inr ((init 109756)\<lparr>DataPath := ''/mnt/Pegasus_Data_Archive/p3data/100000/9700/T109756''\<rparr>) \<and>
   main \<lparr>machine = ''Linux'', waves = Map.empty, text_files = (\<lambda>p. Some (replicate 64 []))\<rparr>
     109756 = Inl TypeError"
proof -
  let ?ev = "\<lparr>machine = ''Linux'', waves = Map.empty,
      text_files = (\<lambda>p. Some (replicate 64 []))\<rparr>"
  let ?s1 = "(init 109756)\<lparr>DataPath := ''/mnt/Pegasus_Data_Archive/p3data/100000/9700/T109756''\<rparr>"
  have s: "str_int 109756 = ''109756''"
    by (simp add: str_int_def digit_chars_def)
  have g: "getFolderPath ?ev (init 109756) = Inr ?s1"
    by (simp add: getFolderPath_def bind_def getitem_def PathDict_def init_def shotstr_of_def s
        path_join_def)
  have w: "waves ?ev (path_join (machine ?ev) (DataPath ?s1) ''PlasmaRogB.ibw'') = None"
    by simp
  have c: "LoadCalData ?ev (LoadRaw ?ev ?s1) = Inr (LoadRaw ?ev ?s1)"
    by (rule LoadCalData_header_only[of _ _ "replicate 64 []"]) simp_all
  from main_missing_PlasmaRogB[OF g w c] g show ?thesis by simp
qed

section \<open>The geometric factors\<close>

text \<open>
  Claim C9: every name of the \<open>BDots\<close> enumeration has an entry in the table of
  \<open>BdotNA\<close>, so the lookup cannot fail on a declared field coil, and a declared coil
  with a conditioned signal and a calibration entry is scaled by its factor; and the
  lookup of a name that is not in the table raises KeyError, in \<open>ProcBdot\<close> too, where
  no handler catches it and no factor is assumed in its place.
\<close>

theorem BdotNA_covers_BDots:
  "dom BdotNA = set BDots \<and>
   (\<forall>coil \<in> set BDots. \<exists>na. getitem BdotNA coil = Inr na) \<and>
   (coil \<in> set BDots \<and> CleanUp coilSig True = Inr (v, t) \<and> calFile self coil = Some cal \<longrightarrow>
      (\<exists>na. BdotNA coil = Some na \<and>
         ProcBdot_loop ((coil, coilSig) # rest) self =
           ProcBdot_loop rest
             (store GBDots coil ((scale_by (fmul (Fin na) (fst cal)) v, t), []) self))) \<and>
   (sig \<notin> set BDots \<longrightarrow> getitem BdotNA sig = Inl KeyError) \<and>
   (sig \<notin> set BDots \<and> (\<exists>r. CleanUp rawSig True = Inr r) \<longrightarrow>
      ProcBdot_loop ((sig, rawSig) # rest) self = Inl KeyError)"
proof -
  have a: "\<exists>na. getitem BdotNA s = Inr na" if "s \<in> set BDots" for s
  proof -
    from that have "s \<in> dom BdotNA" by (simp add: dom_BdotNA)
    then show ?thesis by (auto simp: getitem_def)
  qed
  have ok: "\<exists>na. BdotNA coil = Some na \<and>
         ProcBdot_loop ((coil, coilSig) # rest) self =
           ProcBdot_loop rest
             (store GBDots coil ((scale_by (fmul (Fin na) (fst cal)) v, t), []) self)"
    if "coil \<in> set BDots" "CleanUp coilSig True = Inr (v, t)" "calFile self coil = Some cal"
  proof -
    from that(1) have "coil \<in> dom BdotNA" by (simp add: dom_BdotNA)
    then obtain na where na: "BdotNA coil = Some na" by auto
    from ProcBdot_loop_ok[OF that(2) na that(3)] na show ?thesis by blast
  qed
  have n: "BdotNA sig = None" if "sig \<notin> set BDots"
    using that dom_BdotNA by auto
  have b: "getitem BdotNA sig = Inl KeyError" if "sig \<notin> set BDots"
    using n[OF that] by (simp add: getitem_def)
  have c: "ProcBdot_loop ((sig, rawSig) # rest) self = Inl KeyError"
    if "sig \<notin> set BDots" "\<exists>r. CleanUp rawSig True = Inr r"
    using ProcBdot_loop_no_NA[of rawSig _ sig rest self] n[OF that(1)] that(2) by blast
  from a ok b c dom_BdotNA show ?thesis by blast
qed

theorem BdotNA_covers_BDots_witness:
  "''PDX01'' \<in> set BDots \<and> (\<exists>na. getitem BdotNA ''PDX01'' = Inr na) \<and>
   CleanUp (Wave (1 / 5000) [Fin 5, Fin 5]) True = Inr ([Fin 0, Fin 0], [0, 1 / 5000]) \<and>
   (\<exists>na. BdotNA ''PDX01'' = Some na \<and>
      ProcBdot_loop [(''PDX01'', Wave (1 / 5000) [Fin 5, Fin 5])]
          ((init 109756)\<lparr>calFile := [''PDX01'' \<mapsto> (Fin 2, ''V'')]\<rparr>) =
        Inr (store GBDots ''PDX01''
              ((scale_by (fmul (Fin na) (Fin 2)) [Fin 0, Fin 0], [0, 1 / 5000]), [])
              ((init 109756)\<lparr>calFile := [''PDX01'' \<mapsto> (Fin 2, ''V'')]\<rparr>))) \<and>
   ''CFL01'' \<notin> set BDots \<and> getitem BdotNA ''CFL01'' = Inl KeyError \<and>
   (\<exists>r. CleanUp (Wave (1 / 5000) [Fin 1, Fin 2, Fin 4]) True = Inr r) \<and>
   ProcBdot_loop [(''CFL01'', Wave (1 / 5000) [Fin 1, Fin 2, Fin 4])]
       ((init 109756)\<lparr>calFile := [''PDX01'' \<mapsto> (Fin 2, ''V'')]\<rparr>) = Inl KeyError"
proof -
  let ?self = "(init 109756)\<lparr>calFile := [''PDX01'' \<mapsto> (Fin 2, ''V'')]\<rparr>"
  have p: "''PDX01'' \<in> set BDots" and q: "''CFL01'' \<notin> set BDots"
    by (simp_all add: BDots_def)
  have r: "\<exists>r. CleanUp (Wave (1 / 5000) [Fin 1, Fin 2, Fin 4]) True = Inr r"
    using CleanUp_returns[of "[1, 2, 4]" "1 / 5000" True] by simp
  have "CleanUp (Wave (1 / 5000) (replicate 2 (Fin 5))) True =
      Inr (replicate 2 (Fin 0), sigTime_of (1 / 5000) 2)"
    by (rule CleanUp_const) (simp_all add: dEnd_def)
  then have k: "CleanUp (Wave (1 / 5000) [Fin 5, Fin 5]) True = Inr ([Fin 0, Fin 0], [0, 1 / 5000])"
    by (simp add: numeral_2_eq_2 sigTime_of_def)
  have cf: "calFile ?self ''PDX01'' = Some (Fin 2, ''V'')"
    by simp
  from BdotNA_covers_BDots[of "''PDX01''" "Wave (1 / 5000) [Fin 5, Fin 5]" "[Fin 0, Fin 0]"
      "[0, 1 / 5000]" ?self "(Fin 2, ''V'')" "[]" "''CFL01''" "Wave (1 / 5000) [Fin 1, Fin 2, Fin 4]"]
    p q r k cf
  show ?thesis by auto
qed

end
